theory Spec2Isabelle
  imports Complex_Main
begin

section \<open>JavaScript values and effects\<close>

text \<open>
  The pages are React components. Their callbacks are embedded as functions from the
  component state (the values held by \<open>useState\<close> and \<open>useRef\<close>) to the new state and
  the list of effects the callback performs, in order: the HTTP requests handed to
  \<open>fetch\<close>, the messages handed to the toast and the query keys invalidated. The part of
  an asynchronous callback that runs after an \<open>await\<close> or inside \<open>.then\<close> is a function
  of its own, applied to the outcome of the promise.
\<close>

text \<open>
  A value parsed by \<open>response.json()\<close>. Numbers are read as reals (rounding to a
  double is not represented); an object is the list of its key/value pairs.
\<close>

datatype json =
    JNull
  | JBool bool
  | JNum real
  | JStr string
  | JArr "json list"
  | JObj "(string \<times> json) list"

text \<open>What a rejected promise or a \<open>throw\<close> carries.\<close>

datatype js_error = TypeError string | SyntaxError string

text \<open>A promise settles: it resolves with the parsed body or it rejects.\<close>

datatype outcome = Resolved json | Rejected js_error

text \<open>JavaScript's \<open>ToBoolean\<close>, as used by \<open>if (v)\<close> and \<open>v ? a : b\<close>.\<close>

fun truthy :: "json \<Rightarrow> bool" where
  "truthy JNull = False"
| "truthy (JBool b) = b"
| "truthy (JNum n) = (n \<noteq> 0)"
| "truthy (JStr s) = (s \<noteq> [])"
| "truthy (JArr xs) = True"
| "truthy (JObj kvs) = True"

text \<open>
  Reading a property \<open>v.k\<close> whose name \<open>k\<close> is not a built-in one (such as \<open>err\<close>):
  on \<open>null\<close> it throws a TypeError (whose message is the engine's), on an object it is
  the value stored under the key or \<open>undefined\<close> (here \<open>None\<close>), on an array, boolean,
  number or string it is \<open>undefined\<close>.
\<close>

fun get_prop :: "json \<Rightarrow> string \<Rightarrow> js_error + json option" where
  "get_prop JNull k = Inl (TypeError (''Cannot read properties of null (reading '' @ k @ '')''))"
| "get_prop (JObj kvs) k = Inr (map_of kvs k)"
| "get_prop v k = Inr None"

text \<open>The decimal text of an integer, as string concatenation and template literals give it.\<close>

definition digit :: "nat \<Rightarrow> char" where
  "digit n = ''0123456789'' ! n"

fun decimal_digits :: "nat \<Rightarrow> string" where
  "decimal_digits n =
     (if 10 \<le> n then decimal_digits (n div 10) @ [digit (n mod 10)] else [digit n])"

definition Number_toString :: "int \<Rightarrow> string" where
  "Number_toString i =
     (if 0 \<le> i then decimal_digits (nat i) else CHR ''-'' # decimal_digits (nat \<bar>i\<bar>))"

datatype severity = Success | Info | Warn | Error

text \<open>
  The \<open>detail\<close> of a toast message: a text, or the value that the code passes where a
  string is expected (the response's \<open>err\<close> field, a caught error).
\<close>

datatype detail = Text string | Value json | Thrown js_error

record toast_message =
  severity :: severity
  summary :: string
  detail :: detail

datatype http_method = GET | POST | PUT | DELETE

text \<open>
  The body of a request is \<open>JSON.stringify\<close> of an object; the model keeps the object:
  the form parameters \<open>params\<close>, or \<open>{ action: 'delete' }\<close>.
\<close>

datatype 'p body = Params 'p | Action string

text \<open>
  A call of \<open>fetch\<close>. The other options the code passes (\<open>credentials\<close>, \<open>headers\<close>,
  \<open>cache\<close>) are literals and are left out.
\<close>

record 'p request =
  "method" :: http_method
  url :: string
  body :: "'p body option"

datatype 'p effect =
    Fetch "'p request"
  | Toast toast_message
  | InvalidateQueries string

fun requests :: "'p effect list \<Rightarrow> 'p request list" where
  "requests [] = []"
| "requests (Fetch r # es) = r # requests es"
| "requests (e # es) = requests es"

fun toasts :: "'p effect list \<Rightarrow> toast_message list" where
  "toasts [] = []"
| "toasts (Toast m # es) = m # toasts es"
| "toasts (e # es) = toasts es"

fun invalidated :: "'p effect list \<Rightarrow> string list" where
  "invalidated [] = []"
| "invalidated (InvalidateQueries k # es) = k # invalidated es"
| "invalidated (e # es) = invalidated es"

text \<open>
  \<open>show\<close>, the same on the three pages: the message reaches the toast when the ref
  \<open>toast.current\<close> is not null, that is when the \<open>Toast\<close> element is mounted.
\<close>

definition show_msg :: "bool \<Rightarrow> severity \<Rightarrow> detail \<Rightarrow> 'p effect list" where
  "show_msg toast_current sev message =
     (if toast_current
      then [Toast \<lparr>severity = sev, summary = ''Form submit'', detail = message\<rparr>]
      else [])"

section \<open>The report page (Home.tsx)\<close>

text \<open>
  The calendar date that \<open>moment\<close> reads from a valid \<open>Date\<close> in local time: the year,
  the month (1 to 12) and the day of the month.
\<close>

record date =
  year :: int
  month :: nat
  day :: nat

text \<open>
  The padding of \<open>moment\<close>'s format tokens \<open>YYYY\<close>, \<open>MM\<close> and \<open>DD\<close>: the sign of a
  negative number, then zeros up to the target length, then the digits. The number of
  zeros is a natural number, so the subtraction stops at 0 as \<open>Math.max(0, ...)\<close> does.
\<close>

definition zeroFill :: "int \<Rightarrow> nat \<Rightarrow> string" where
  "zeroFill number targetLength =
     (let absNumber = decimal_digits (nat \<bar>number\<bar>);
          zerosToFill = targetLength - length absNumber
      in (if number \<ge> 0 then '''' else ''-'') @ replicate zerosToFill (CHR ''0'') @ absNumber)"

text \<open>\<open>moment(d).format("YYYY-MM-DD")\<close>.\<close>

definition format_YYYY_MM_DD :: "date \<Rightarrow> string" where
  "format_YYYY_MM_DD d =
     zeroFill (year d) 4 @ ''-'' @ zeroFill (int (month d)) 2 @ ''-'' @ zeroFill (int (day d)) 2"

text \<open>
  The data that \<open>handleSubmit\<close> passes to \<open>onSubmit\<close> once the schema has accepted the
  form: two dates, the IP address, the channel (a number, or \<open>null\<close>, here \<open>None\<close>) and
  the granularity.
\<close>

record Home_FormValues =
  fromDate :: date
  toDate :: date
  ipAddress :: string
  channel :: "int option"
  details :: string

text \<open>
  Modelled from the spec: the interface declarations \<open>ChannelValues\<close> and
  \<open>EnergyMeterValues\<close> that the pages use are not among the sources (the
  \<open>EnergyMeterValues\<close> shown beside Home.tsx has no \<open>id\<close>, which the pages read). The
  fields are those of the spec's data model (Channel and EnergyMeter), with
  \<open>assset_name\<close> as the channels page adds it. \<open>enabled\<close> is kept as the value the
  server sent, since the code tests only its truthiness. \<open>oid\<close> is the identity of the
  JavaScript object, which React compares when it decides whether a state has changed.
\<close>

record ChannelValues =
  ch_oid :: nat
  ch_id :: int
  energy_meter_id :: int
  ch_channel :: int
  channel_name :: string
  ch_enabled :: json
  assset_name :: "string option"

record EnergyMeterValues =
  em_oid :: nat
  em_id :: int
  asset_name :: string
  ip_address :: string
  port :: int
  time_zone :: string
  em_enabled :: json

record Home_state =
  measurements :: json
  channels :: "ChannelValues list"
  energy_meterValues :: "EnergyMeterValues list"
  toast_current :: bool

text \<open>
  The options of the two dropdowns, as pairs of label and value: the devices
  (\<open>optionLabel="asset_name" optionValue="ip_address"\<close>), and the channels of the selected
  device after the option "All" (\<open>optionLabel="channel_name" optionValue="channel"\<close>).
  The value of the selected option is what the form holds as \<open>ipAddress\<close> and \<open>channel\<close>.
\<close>

definition ipAddress_options :: "Home_state \<Rightarrow> (string \<times> string) list" where
  "ipAddress_options s = map (\<lambda>em. (asset_name em, ip_address em)) (energy_meterValues s)"

definition channel_options :: "Home_state \<Rightarrow> (string \<times> int) list" where
  "channel_options s = (''All'', - 1) # map (\<lambda>c. (channel_name c, ch_channel c)) (channels s)"

text \<open>The path that \<open>updateTable\<close> builds before it calls \<open>fetch\<close>.\<close>

definition updateTable_path :: "Home_FormValues \<Rightarrow> string" where
  "updateTable_path params =
     (let path = ''/api/measurements/report?fromdate='' @ format_YYYY_MM_DD (fromDate params)
                 @ ''&todate='' @ format_YYYY_MM_DD (toDate params)
                 @ ''&ip='' @ ipAddress params
                 @ ''&details='' @ details params
      in case channel params of
           None \<Rightarrow> path
         | Some c \<Rightarrow> if c > 0 then path @ ''&channel='' @ Number_toString c else path)"

text \<open>\<open>updateTable\<close> up to \<open>await fetch(path)\<close>.\<close>

definition updateTable :: "Home_state \<Rightarrow> Home_FormValues \<Rightarrow> Home_state \<times> unit effect list" where
  "updateTable s params =
     (s, [Fetch \<lparr>method = GET, url = updateTable_path params, body = None\<rparr>])"

text \<open>
  \<open>updateTable\<close> after the awaits: \<open>Inl\<close> when the promise of the \<open>async\<close> function
  rejects (the fetch or the parse failed, or \<open>values.err\<close> threw), which leaves the state
  as it was.
\<close>

definition updateTable_resume :: "Home_state \<Rightarrow> outcome \<Rightarrow> js_error + Home_state \<times> unit effect list" where
  "updateTable_resume s res =
     (case res of
        Rejected e \<Rightarrow> Inl e
      | Resolved values \<Rightarrow>
          (case get_prop values ''err'' of
             Inl e \<Rightarrow> Inl e
           | Inr None \<Rightarrow> Inr (s\<lparr>measurements := values\<rparr>, [])
           | Inr (Some err) \<Rightarrow>
               if truthy err
               then Inr (s\<lparr>measurements := JArr []\<rparr>,
                         show_msg (toast_current s) Error (Value err))
               else Inr (s\<lparr>measurements := values\<rparr>, [])))"

definition Home_onSubmitError :: "Home_state \<Rightarrow> Home_state \<times> unit effect list" where
  "Home_onSubmitError s =
     (s, show_msg (toast_current s) Error
           (Text ''Please fill form as needed. Read tooltips on red marked fields.''))"

text \<open>\<open>onSubmit\<close>; \<open>now\<close> is the date that \<open>moment()\<close> reads from the clock.\<close>

definition Home_onSubmit :: "date \<Rightarrow> Home_state \<Rightarrow> Home_FormValues \<Rightarrow> Home_state \<times> unit effect list" where
  "Home_onSubmit now s data =
     (if year (fromDate data) < year now \<and> details data \<noteq> ''monthly''
      then (s, show_msg (toast_current s) Error
                 (Text ''Details must be monthly when required year less then current year''))
      else updateTable s data)"

section \<open>The table pages (channels.tsx with the Channels and the EnergyMeter component)\<close>

text \<open>
  What the two components take from the browser and from their libraries:
  \<open>JSON.stringify\<close> on a parsed response, zod's test of an IPv4 address, and
  \<open>dayjs.tz.guess()\<close>, read once when the module loads.
\<close>

record env =
  JSON_stringify :: "json \<Rightarrow> string"
  ip_v4 :: "string \<Rightarrow> bool"
  defaultTimeZone :: string

text \<open>
  \<open>DataTableStateEvent\<close>, with the fields of the initial \<open>lazyState\<close>. A filter is the
  field name with its value and match mode.
\<close>

record DataTableStateEvent =
  first :: int
  rows :: int
  page :: int
  pageCount :: int
  sortField :: string
  sortOrder :: int
  multiSortMeta :: "(string \<times> int) list"
  filters :: "(string \<times> json \<times> string) list"

text \<open>
  The state of a table page: the \<open>useState\<close> values, the ref \<open>toast.current\<close> (true
  when it is not null) and the values that the form of \<open>useForm\<close> holds.
\<close>

record ('row, 'form) page_state =
  lazyState :: DataTableStateEvent
  editedRow :: "'row option"
  selectedRow :: "'row option"
  visible :: bool
  confirmDialogVisible :: bool
  toastCurrent :: bool
  formValues :: 'form

text \<open>
  What can happen to a page: the callbacks of the table, the three buttons, the two
  dialogs, a change of a form field, the submit button, and the settling of the promise
  chain of a request sent with the given method.
\<close>

datatype ('row, 'change) event =
    OnPage DataTableStateEvent
  | OnFilter DataTableStateEvent
  | OnSelectionChange "'row option"
  | ClickNew
  | ClickModify
  | ClickDelete
  | DialogHide
  | ConfirmAccept
  | ConfirmHide
  | Change 'change
  | Submit
  | Settled http_method outcome

definition initial_lazyState :: DataTableStateEvent where
  "initial_lazyState =
     \<lparr>first = 0, rows = 10, page = 0, pageCount = 0, sortField = [], sortOrder = 1,
      multiSortMeta = [], filters = []\<rparr>"

text \<open>\<open>onPage\<close>, \<open>onFilter\<close> and \<open>onSelectionChange\<close> are the same in both components.\<close>

definition onPage :: "('row, 'form) page_state \<Rightarrow> DataTableStateEvent \<Rightarrow> ('row, 'form) page_state" where
  "onPage s event = s\<lparr>lazyState := event\<rparr>"

definition onFilter :: "('row, 'form) page_state \<Rightarrow> DataTableStateEvent \<Rightarrow> ('row, 'form) page_state" where
  "onFilter s event = (let event = event\<lparr>first := 0\<rparr> in s\<lparr>lazyState := event\<rparr>)"

definition onSelectionChange :: "('row, 'form) page_state \<Rightarrow> 'row option \<Rightarrow> ('row, 'form) page_state" where
  "onSelectionChange s v = s\<lparr>selectedRow := v\<rparr>"

text \<open>The run of a page from a state through a list of events, effects dropped.\<close>

fun run :: "('s \<Rightarrow> 'e \<Rightarrow> 's \<times> 'x) \<Rightarrow> 's \<Rightarrow> 'e list \<Rightarrow> 's" where
  "run step s [] = s"
| "run step s (e # es) = run step (fst (step s e)) es"

subsection \<open>Channels\<close>

text \<open>The values of the form as \<open>useForm\<close> holds them; \<open>InputNumber\<close> gives a number or \<open>null\<close>.\<close>

record Channels_form =
  cf_energy_meter_id :: int
  cf_channel :: "int option"
  cf_channel_name :: string
  cf_enabled :: bool

text \<open>\<open>FormValues\<close>: what the schema lets through to \<open>onSubmit\<close>, and the \<open>params\<close> sent.\<close>

record Channels_FormValues =
  cp_energy_meter_id :: int
  cp_channel :: int
  cp_channel_name :: string
  cp_enabled :: bool

datatype Channels_change =
    Set_energy_meter_id int
  | Set_channel "int option"
  | Set_channel_name string
  | Set_enabled bool

type_synonym Channels_state = "(ChannelValues, Channels_form) page_state"
type_synonym Channels_effect = "Channels_FormValues effect"
type_synonym Channels_event = "(ChannelValues, Channels_change) event"

text \<open>
  The zod schema: \<open>energy_meter_id\<close> a number, \<open>channel\<close> a number of at least 1,
  \<open>channel_name\<close> a non-empty string, \<open>enabled\<close> a boolean.
\<close>

definition Channels_schema :: "Channels_form \<Rightarrow> Channels_FormValues option" where
  "Channels_schema f =
     (case cf_channel f of
        None \<Rightarrow> None
      | Some c \<Rightarrow>
          if 1 \<le> c \<and> cf_channel_name f \<noteq> []
          then Some \<lparr>cp_energy_meter_id = cf_energy_meter_id f, cp_channel = c,
                     cp_channel_name = cf_channel_name f, cp_enabled = cf_enabled f\<rparr>
          else None)"

definition Channels_updatePage :: "Channels_state \<Rightarrow> Channels_state \<times> Channels_effect list" where
  "Channels_updatePage s =
     (s\<lparr>selectedRow := None\<rparr>, [InvalidateQueries ''channels'', InvalidateQueries ''channelscount''])"

text \<open>
  The \<open>queryFn\<close> of the list query after its two fetches: \<open>values\<close> is the page of
  channels, \<open>energyMetersValues\<close> the whole collection of energy meters.
\<close>

definition Channels_queryFn :: "ChannelValues list \<Rightarrow> EnergyMeterValues list \<Rightarrow> ChannelValues list" where
  "Channels_queryFn values energyMetersValues =
     map (\<lambda>element.
            let result = filter (\<lambda>energyMeter. em_id energyMeter = energy_meter_id element)
                           energyMetersValues;
                element = (if length result > 0
                           then element\<lparr>assset_name := Some (asset_name (result ! 0))\<rparr>
                           else element)
            in element\<lparr>ch_enabled := JBool (if truthy (ch_enabled element) then True else False)\<rparr>)
         values"

definition Channels_onSubmitError :: "Channels_state \<Rightarrow> Channels_state \<times> Channels_effect list" where
  "Channels_onSubmitError s =
     (s, show_msg (toastCurrent s) Error
           (Text ''Please fill form as needed. Read tooltips on red marked fields.''))"

text \<open>\<open>onSubmit\<close> up to the call of \<open>fetch\<close>.\<close>

definition Channels_onSubmit :: "Channels_state \<Rightarrow> Channels_FormValues \<Rightarrow> Channels_state \<times> Channels_effect list" where
  "Channels_onSubmit s data =
     (let params = \<lparr>cp_energy_meter_id = cp_energy_meter_id data, cp_channel = cp_channel data,
                     cp_channel_name = cp_channel_name data, cp_enabled = cp_enabled data\<rparr>
      in case editedRow s of
           None \<Rightarrow>
             (s, [Fetch \<lparr>method = POST, url = ''/api/admin/crud/channels'',
                         body = Some (Params params)\<rparr>])
         | Some row \<Rightarrow>
             if ch_id row \<noteq> 0
             then (s, [Fetch \<lparr>method = PUT,
                               url = ''/api/admin/crud/channels/'' @ Number_toString (ch_id row),
                               body = Some (Params params)\<rparr>])
             else (s, [Fetch \<lparr>method = POST, url = ''/api/admin/crud/channels'',
                               body = Some (Params params)\<rparr>]))"

text \<open>
  The rest of a promise chain, \<open>.then(response.json()).then(...).catch(...)\<close>, for the
  request sent with method \<open>m\<close>: of \<open>onSubmit\<close> (PUT, POST), of \<open>deleteSelectedRow\<close>
  (DELETE) and of \<open>fetchEnergy_meterValues\<close> (GET), whose list of options is not part
  of this state and whose rejection nothing catches.
\<close>

definition Channels_settled :: "env \<Rightarrow> http_method \<Rightarrow> Channels_state \<Rightarrow> outcome \<Rightarrow> Channels_state \<times> Channels_effect list" where
  "Channels_settled env m s res =
     (case m of
        GET \<Rightarrow> (s, [])
      | _ \<Rightarrow>
        (case res of
           Rejected err \<Rightarrow> (s, show_msg (toastCurrent s) Error (Thrown err))
         | Resolved data \<Rightarrow>
             (case m of
                PUT \<Rightarrow>
                  (let (s1, es) = Channels_updatePage s; s2 = s1\<lparr>visible := False\<rparr>
                   in (s2, es @ show_msg (toastCurrent s2) Success
                                  (Text (''Updated channel: '' @ JSON_stringify env data))))
              | POST \<Rightarrow>
                  (let (s1, es) = Channels_updatePage s; s2 = s1\<lparr>visible := False\<rparr>
                   in (s2, es @ show_msg (toastCurrent s2) Success
                                  (Text (''Saved channel: '' @ JSON_stringify env data))))
              | _ \<Rightarrow>
                  (let es = show_msg (toastCurrent s) Success
                              (Text (''Deleted channels: '' @ JSON_stringify env data));
                       (s1, es') = Channels_updatePage s
                   in (s1, es @ es')))))"

text \<open>
  The \<open>useEffect\<close> on \<open>editedRow\<close>: it fetches the energy meters and sets the four
  fields, from the edited row or to their defaults.
\<close>

definition Channels_useEffect :: "Channels_state \<Rightarrow> Channels_state \<times> Channels_effect list" where
  "Channels_useEffect s =
     (let fetchEnergy_meterValues =
            [Fetch \<lparr>method = GET, url = ''/api/admin/crud/energy_meter'', body = None\<rparr>];
          defaults = \<lparr>cf_energy_meter_id = - 1, cf_channel = Some 1, cf_channel_name = [],
                      cf_enabled = False\<rparr>
      in case editedRow s of
           None \<Rightarrow> (s\<lparr>formValues := defaults\<rparr>, fetchEnergy_meterValues)
         | Some row \<Rightarrow>
             if ch_id row \<noteq> 0
             then (s\<lparr>formValues :=
                        \<lparr>cf_energy_meter_id = energy_meter_id row, cf_channel = Some (ch_channel row),
                         cf_channel_name = channel_name row,
                         cf_enabled = (if truthy (ch_enabled row) then True else False)\<rparr>\<rparr>,
                   fetchEnergy_meterValues)
             else (s\<lparr>formValues := defaults\<rparr>, fetchEnergy_meterValues))"

text \<open>
  \<open>setEditedRow\<close> followed by the render: the effect runs when \<open>editedRow\<close> is not the
  object it was.
\<close>

definition Channels_setEditedRow :: "Channels_state \<Rightarrow> ChannelValues option \<Rightarrow> Channels_state \<times> Channels_effect list" where
  "Channels_setEditedRow s v =
     (if editedRow s = v then (s, []) else Channels_useEffect (s\<lparr>editedRow := v\<rparr>))"

definition Channels_deleteSelectedRow :: "Channels_state \<Rightarrow> Channels_state \<times> Channels_effect list" where
  "Channels_deleteSelectedRow s =
     (case selectedRow s of
        Some row \<Rightarrow>
          (s, [Fetch \<lparr>method = DELETE,
                      url = ''/api/admin/crud/channels/'' @ Number_toString (ch_id row),
                      body = Some (Action ''delete'')\<rparr>])
      | None \<Rightarrow> (s, []))"

text \<open>The \<open>disabled\<close> of the buttons Modify and Delete.\<close>

definition Channels_button_disabled :: "Channels_state \<Rightarrow> bool" where
  "Channels_button_disabled s =
     (case selectedRow s of None \<Rightarrow> True | Some row \<Rightarrow> if ch_id row \<noteq> 0 then False else True)"

definition Channels_click_New :: "Channels_state \<Rightarrow> Channels_state \<times> Channels_effect list" where
  "Channels_click_New s =
     (let (s1, es) = Channels_setEditedRow (s\<lparr>selectedRow := None\<rparr>) None
      in (s1\<lparr>visible := True\<rparr>, es))"

definition Channels_click_Modify :: "Channels_state \<Rightarrow> Channels_state \<times> Channels_effect list" where
  "Channels_click_Modify s =
     (let (s1, es) = Channels_setEditedRow s (selectedRow s)
      in (s1\<lparr>visible := True\<rparr>, es))"

definition Channels_field_onChange :: "Channels_state \<Rightarrow> Channels_change \<Rightarrow> Channels_state" where
  "Channels_field_onChange s c =
     (case c of
        Set_energy_meter_id v \<Rightarrow> s\<lparr>formValues := (formValues s)\<lparr>cf_energy_meter_id := v\<rparr>\<rparr>
      | Set_channel v \<Rightarrow> s\<lparr>formValues := (formValues s)\<lparr>cf_channel := v\<rparr>\<rparr>
      | Set_channel_name v \<Rightarrow> s\<lparr>formValues := (formValues s)\<lparr>cf_channel_name := v\<rparr>\<rparr>
      | Set_enabled v \<Rightarrow> s\<lparr>formValues := (formValues s)\<lparr>cf_enabled := v\<rparr>\<rparr>)"

text \<open>\<open>handleSubmit(onSubmit, onSubmitError)\<close>: the schema decides which of the two runs.\<close>

definition Channels_handleSubmit :: "Channels_state \<Rightarrow> Channels_state \<times> Channels_effect list" where
  "Channels_handleSubmit s =
     (case Channels_schema (formValues s) of
        Some data \<Rightarrow> Channels_onSubmit s data
      | None \<Rightarrow> Channels_onSubmitError s)"

text \<open>
  The component after it has mounted: the effect has run once on \<open>editedRow = null\<close> and
  the \<open>Toast\<close> is in place.
\<close>

definition Channels_init :: Channels_state where
  "Channels_init =
     \<lparr>lazyState = initial_lazyState, editedRow = None, selectedRow = None, visible = False,
      confirmDialogVisible = False, toastCurrent = True,
      formValues = \<lparr>cf_energy_meter_id = - 1, cf_channel = Some 1, cf_channel_name = [],
                    cf_enabled = False\<rparr>\<rparr>"

text \<open>
  One event. A control that is disabled or not on the screen (a button with
  \<open>disabled\<close>, the form of a hidden dialog, the buttons of the hidden confirm dialog)
  gives no event, so the state stays. The confirm dialog calls \<open>accept\<close> and then
  \<open>onHide\<close>.
\<close>

fun Channels_step :: "env \<Rightarrow> Channels_state \<Rightarrow> Channels_event \<Rightarrow> Channels_state \<times> Channels_effect list" where
  "Channels_step env s (OnPage e) = (onPage s e, [])"
| "Channels_step env s (OnFilter e) = (onFilter s e, [])"
| "Channels_step env s (OnSelectionChange v) = (onSelectionChange s v, [])"
| "Channels_step env s ClickNew = Channels_click_New s"
| "Channels_step env s ClickModify =
     (if Channels_button_disabled s then (s, []) else Channels_click_Modify s)"
| "Channels_step env s ClickDelete =
     (if Channels_button_disabled s then (s, []) else (s\<lparr>confirmDialogVisible := True\<rparr>, []))"
| "Channels_step env s DialogHide = (if visible s then (s\<lparr>visible := False\<rparr>, []) else (s, []))"
| "Channels_step env s ConfirmAccept =
     (if confirmDialogVisible s
      then (let (s1, es) = Channels_deleteSelectedRow s in (s1\<lparr>confirmDialogVisible := False\<rparr>, es))
      else (s, []))"
| "Channels_step env s ConfirmHide =
     (if confirmDialogVisible s then (s\<lparr>confirmDialogVisible := False\<rparr>, []) else (s, []))"
| "Channels_step env s (Change c) =
     (if visible s then (Channels_field_onChange s c, []) else (s, []))"
| "Channels_step env s Submit = (if visible s then Channels_handleSubmit s else (s, []))"
| "Channels_step env s (Settled m res) = Channels_settled env m s res"

subsection \<open>EnergyMeter\<close>

record EnergyMeter_form =
  ef_asset_name :: string
  ef_ip_address :: string
  ef_port :: "int option"
  ef_time_zone :: string
  ef_enabled :: bool

record EnergyMeter_FormValues =
  ep_asset_name :: string
  ep_ip_address :: string
  ep_port :: int
  ep_time_zone :: string
  ep_enabled :: bool

datatype EnergyMeter_change =
    Set_asset_name string
  | Set_ip_address string
  | Set_port "int option"
  | Set_time_zone string
  | Set_em_enabled bool

type_synonym EnergyMeter_state = "(EnergyMeterValues, EnergyMeter_form) page_state"
type_synonym EnergyMeter_effect = "EnergyMeter_FormValues effect"
type_synonym EnergyMeter_event = "(EnergyMeterValues, EnergyMeter_change) event"

text \<open>
  The zod schema: \<open>asset_name\<close> and \<open>time_zone\<close> non-empty strings, \<open>ip_address\<close> a
  non-empty IPv4 address, \<open>port\<close> a number of at least 1, \<open>enabled\<close> a boolean.
\<close>

definition EnergyMeter_schema :: "env \<Rightarrow> EnergyMeter_form \<Rightarrow> EnergyMeter_FormValues option" where
  "EnergyMeter_schema env f =
     (case ef_port f of
        None \<Rightarrow> None
      | Some p \<Rightarrow>
          if ef_asset_name f \<noteq> [] \<and> ip_v4 env (ef_ip_address f) \<and> ef_ip_address f \<noteq> [] \<and>
             1 \<le> p \<and> ef_time_zone f \<noteq> []
          then Some \<lparr>ep_asset_name = ef_asset_name f, ep_ip_address = ef_ip_address f, ep_port = p,
                     ep_time_zone = ef_time_zone f, ep_enabled = ef_enabled f\<rparr>
          else None)"

definition EnergyMeter_updatePage :: "EnergyMeter_state \<Rightarrow> EnergyMeter_state \<times> EnergyMeter_effect list" where
  "EnergyMeter_updatePage s =
     (s\<lparr>selectedRow := None\<rparr>,
      [InvalidateQueries ''energy_meter'', InvalidateQueries ''energy_metercount''])"

text \<open>The \<open>queryFn\<close> of the list query after its fetch.\<close>

definition EnergyMeter_queryFn :: "EnergyMeterValues list \<Rightarrow> EnergyMeterValues list" where
  "EnergyMeter_queryFn values =
     map (\<lambda>element.
            element\<lparr>em_enabled := JBool (if truthy (em_enabled element) then True else False)\<rparr>)
         values"

definition EnergyMeter_onSubmitError :: "EnergyMeter_state \<Rightarrow> EnergyMeter_state \<times> EnergyMeter_effect list" where
  "EnergyMeter_onSubmitError s =
     (s, show_msg (toastCurrent s) Error
           (Text ''Please fill form as needed. Read tooltips on red marked fields.''))"

definition EnergyMeter_onSubmit :: "EnergyMeter_state \<Rightarrow> EnergyMeter_FormValues \<Rightarrow> EnergyMeter_state \<times> EnergyMeter_effect list" where
  "EnergyMeter_onSubmit s data =
     (let params = \<lparr>ep_asset_name = ep_asset_name data, ep_ip_address = ep_ip_address data,
                     ep_port = ep_port data, ep_time_zone = ep_time_zone data,
                     ep_enabled = (if ep_enabled data then True else False)\<rparr>
      in case editedRow s of
           None \<Rightarrow>
             (s, [Fetch \<lparr>method = POST, url = ''/api/admin/crud/energy_meter'',
                         body = Some (Params params)\<rparr>])
         | Some row \<Rightarrow>
             if em_id row \<noteq> 0
             then (s, [Fetch \<lparr>method = PUT,
                               url = ''/api/admin/crud/energy_meter/'' @ Number_toString (em_id row),
                               body = Some (Params params)\<rparr>])
             else (s, [Fetch \<lparr>method = POST, url = ''/api/admin/crud/energy_meter'',
                               body = Some (Params params)\<rparr>]))"

text \<open>
  The rest of the promise chain of the request sent with method \<open>m\<close>; the component
  sends no GET of its own outside the queries.
\<close>

definition EnergyMeter_settled :: "env \<Rightarrow> http_method \<Rightarrow> EnergyMeter_state \<Rightarrow> outcome \<Rightarrow> EnergyMeter_state \<times> EnergyMeter_effect list" where
  "EnergyMeter_settled env m s res =
     (case m of
        GET \<Rightarrow> (s, [])
      | _ \<Rightarrow>
        (case res of
           Rejected err \<Rightarrow> (s, show_msg (toastCurrent s) Error (Thrown err))
         | Resolved data \<Rightarrow>
             (case m of
                PUT \<Rightarrow>
                  (let (s1, es) = EnergyMeter_updatePage s; s2 = s1\<lparr>visible := False\<rparr>
                   in (s2, es @ show_msg (toastCurrent s2) Success
                                  (Text (''Updated energymeter: '' @ JSON_stringify env data))))
              | POST \<Rightarrow>
                  (let (s1, es) = EnergyMeter_updatePage s; s2 = s1\<lparr>visible := False\<rparr>
                   in (s2, es @ show_msg (toastCurrent s2) Success
                                  (Text (''Saved energymeter: '' @ JSON_stringify env data))))
              | _ \<Rightarrow>
                  (let es = show_msg (toastCurrent s) Success
                              (Text (''Deleted energy_meter: '' @ JSON_stringify env data));
                       (s1, es') = EnergyMeter_updatePage s
                   in (s1, es @ es')))))"

text \<open>The \<open>useEffect\<close> on \<open>editedRow\<close>: the five fields, from the edited row or to their defaults.\<close>

definition EnergyMeter_useEffect :: "env \<Rightarrow> EnergyMeter_state \<Rightarrow> EnergyMeter_state" where
  "EnergyMeter_useEffect env s =
     (let defaults = \<lparr>ef_asset_name = [], ef_ip_address = [], ef_port = Some 50003,
                       ef_time_zone = defaultTimeZone env, ef_enabled = False\<rparr>
      in case editedRow s of
           None \<Rightarrow> s\<lparr>formValues := defaults\<rparr>
         | Some row \<Rightarrow>
             if em_id row \<noteq> 0
             then s\<lparr>formValues :=
                       \<lparr>ef_asset_name = asset_name row, ef_ip_address = ip_address row,
                        ef_port = Some (port row), ef_time_zone = time_zone row,
                        ef_enabled = (if truthy (em_enabled row) then True else False)\<rparr>\<rparr>
             else s\<lparr>formValues := defaults\<rparr>)"

definition EnergyMeter_setEditedRow :: "env \<Rightarrow> EnergyMeter_state \<Rightarrow> EnergyMeterValues option \<Rightarrow> EnergyMeter_state" where
  "EnergyMeter_setEditedRow env s v =
     (if editedRow s = v then s else EnergyMeter_useEffect env (s\<lparr>editedRow := v\<rparr>))"

definition EnergyMeter_deleteSelectedRow :: "EnergyMeter_state \<Rightarrow> EnergyMeter_state \<times> EnergyMeter_effect list" where
  "EnergyMeter_deleteSelectedRow s =
     (case selectedRow s of
        Some row \<Rightarrow>
          (s, [Fetch \<lparr>method = DELETE,
                      url = ''/api/admin/crud/energy_meter/'' @ Number_toString (em_id row),
                      body = Some (Action ''delete'')\<rparr>])
      | None \<Rightarrow> (s, []))"

definition EnergyMeter_button_disabled :: "EnergyMeter_state \<Rightarrow> bool" where
  "EnergyMeter_button_disabled s =
     (case selectedRow s of None \<Rightarrow> True | Some row \<Rightarrow> if em_id row \<noteq> 0 then False else True)"

text \<open>The \<open>disabled\<close> of the inputs of \<open>ip_address\<close> and of \<open>port\<close>, the same expression.\<close>

definition EnergyMeter_input_disabled :: "EnergyMeter_state \<Rightarrow> bool" where
  "EnergyMeter_input_disabled s =
     (case editedRow s of None \<Rightarrow> False | Some row \<Rightarrow> em_id row > - 1)"

definition EnergyMeter_click_New :: "env \<Rightarrow> EnergyMeter_state \<Rightarrow> EnergyMeter_state" where
  "EnergyMeter_click_New env s =
     (EnergyMeter_setEditedRow env (s\<lparr>selectedRow := None\<rparr>) None)\<lparr>visible := True\<rparr>"

text \<open>
  The handler of Modify also writes \<open>defaultTimeZone\<close> into the form's own values,
  before the effect of the next render.
\<close>

definition EnergyMeter_click_Modify :: "env \<Rightarrow> EnergyMeter_state \<Rightarrow> EnergyMeter_state" where
  "EnergyMeter_click_Modify env s =
     (let s1 = s\<lparr>formValues := (formValues s)\<lparr>ef_time_zone := defaultTimeZone env\<rparr>\<rparr>
      in (EnergyMeter_setEditedRow env s1 (selectedRow s))\<lparr>visible := True\<rparr>)"

text \<open>A change of a field; a disabled input gives none.\<close>

definition EnergyMeter_field_onChange :: "EnergyMeter_state \<Rightarrow> EnergyMeter_change \<Rightarrow> EnergyMeter_state" where
  "EnergyMeter_field_onChange s c =
     (case c of
        Set_asset_name v \<Rightarrow> s\<lparr>formValues := (formValues s)\<lparr>ef_asset_name := v\<rparr>\<rparr>
      | Set_ip_address v \<Rightarrow>
          if EnergyMeter_input_disabled s then s
          else s\<lparr>formValues := (formValues s)\<lparr>ef_ip_address := v\<rparr>\<rparr>
      | Set_port v \<Rightarrow>
          if EnergyMeter_input_disabled s then s
          else s\<lparr>formValues := (formValues s)\<lparr>ef_port := v\<rparr>\<rparr>
      | Set_time_zone v \<Rightarrow> s\<lparr>formValues := (formValues s)\<lparr>ef_time_zone := v\<rparr>\<rparr>
      | Set_em_enabled v \<Rightarrow> s\<lparr>formValues := (formValues s)\<lparr>ef_enabled := v\<rparr>\<rparr>)"

definition EnergyMeter_handleSubmit :: "env \<Rightarrow> EnergyMeter_state \<Rightarrow> EnergyMeter_state \<times> EnergyMeter_effect list" where
  "EnergyMeter_handleSubmit env s =
     (case EnergyMeter_schema env (formValues s) of
        Some data \<Rightarrow> EnergyMeter_onSubmit s data
      | None \<Rightarrow> EnergyMeter_onSubmitError s)"

definition EnergyMeter_init :: "env \<Rightarrow> EnergyMeter_state" where
  "EnergyMeter_init env =
     \<lparr>lazyState = initial_lazyState, editedRow = None, selectedRow = None, visible = False,
      confirmDialogVisible = False, toastCurrent = True,
      formValues = \<lparr>ef_asset_name = [], ef_ip_address = [], ef_port = Some 50003,
                    ef_time_zone = defaultTimeZone env, ef_enabled = False\<rparr>\<rparr>"

fun EnergyMeter_step :: "env \<Rightarrow> EnergyMeter_state \<Rightarrow> EnergyMeter_event \<Rightarrow> EnergyMeter_state \<times> EnergyMeter_effect list" where
  "EnergyMeter_step env s (OnPage e) = (onPage s e, [])"
| "EnergyMeter_step env s (OnFilter e) = (onFilter s e, [])"
| "EnergyMeter_step env s (OnSelectionChange v) = (onSelectionChange s v, [])"
| "EnergyMeter_step env s ClickNew = (EnergyMeter_click_New env s, [])"
| "EnergyMeter_step env s ClickModify =
     (if EnergyMeter_button_disabled s then (s, []) else (EnergyMeter_click_Modify env s, []))"
| "EnergyMeter_step env s ClickDelete =
     (if EnergyMeter_button_disabled s then (s, []) else (s\<lparr>confirmDialogVisible := True\<rparr>, []))"
| "EnergyMeter_step env s DialogHide = (if visible s then (s\<lparr>visible := False\<rparr>, []) else (s, []))"
| "EnergyMeter_step env s ConfirmAccept =
     (if confirmDialogVisible s
      then (let (s1, es) = EnergyMeter_deleteSelectedRow s
            in (s1\<lparr>confirmDialogVisible := False\<rparr>, es))
      else (s, []))"
| "EnergyMeter_step env s ConfirmHide =
     (if confirmDialogVisible s then (s\<lparr>confirmDialogVisible := False\<rparr>, []) else (s, []))"
| "EnergyMeter_step env s (Change c) =
     (if visible s then (EnergyMeter_field_onChange s c, []) else (s, []))"
| "EnergyMeter_step env s Submit = (if visible s then EnergyMeter_handleSubmit env s else (s, []))"
| "EnergyMeter_step env s (Settled m res) = EnergyMeter_settled env m s res"

text \<open>
  The invariant of the EnergyMeter page: an edited row has a truthy \<open>id\<close>, and when that
  \<open>id\<close> is greater than -1 the form holds the row's \<open>ip_address\<close> and \<open>port\<close>.
\<close>

definition edit_form_bound :: "EnergyMeter_state \<Rightarrow> bool" where
  "edit_form_bound s =
     (case editedRow s of
        None \<Rightarrow> True
      | Some row \<Rightarrow>
          em_id row \<noteq> 0 \<and>
          (em_id row > - 1 \<longrightarrow>
             ef_ip_address (formValues s) = ip_address row \<and>
             ef_port (formValues s) = Some (port row)))"

section \<open>Properties\<close>

subsection \<open>Decimal texts and dates\<close>

declare decimal_digits.simps [simp del]

lemma digit_0: "digit 0 = CHR ''0''"
  by (simp add: digit_def)

lemma decimal_digits_1: "n < 10 \<Longrightarrow> decimal_digits n = [digit n]"
  by (subst decimal_digits.simps) simp

lemma decimal_digits_2:
  "10 \<le> n \<Longrightarrow> n < 100 \<Longrightarrow> decimal_digits n = [digit (n div 10), digit (n mod 10)]"
  by (subst decimal_digits.simps) (simp add: decimal_digits_1)

lemma decimal_digits_3:
  "100 \<le> n \<Longrightarrow> n < 1000 \<Longrightarrow>
   decimal_digits n = [digit (n div 100), digit (n div 10 mod 10), digit (n mod 10)]"
  by (subst decimal_digits.simps) (simp add: decimal_digits_2 div_mult2_eq[symmetric])

lemma decimal_digits_4:
  "1000 \<le> n \<Longrightarrow> n < 10000 \<Longrightarrow>
   decimal_digits n = [digit (n div 1000), digit (n div 100 mod 10),
                      digit (n div 10 mod 10), digit (n mod 10)]"
  by (subst decimal_digits.simps) (simp add: decimal_digits_3 div_mult2_eq[symmetric])

lemma replicate_3: "replicate 3 c = [c, c, c]"
  by (simp add: numeral_3_eq_3)

lemma replicate_2: "replicate 2 c = [c, c]"
  by (simp add: numeral_2_eq_2)

lemma zeroFill_2:
  assumes "n < 100"
  shows "zeroFill (int n) 2 = [digit (n div 10), digit (n mod 10)]"
proof (cases "n < 10")
  case True
  then show ?thesis
    by (simp add: zeroFill_def decimal_digits_1 digit_0)
next
  case False
  with assms show ?thesis
    by (simp add: zeroFill_def decimal_digits_2)
qed

lemma zeroFill_4:
  assumes "n < 10000"
  shows "zeroFill (int n) 4 =
           [digit (n div 1000), digit (n div 100 mod 10), digit (n div 10 mod 10), digit (n mod 10)]"
proof -
  consider "n < 10" | "10 \<le> n" "n < 100" | "100 \<le> n" "n < 1000" | "1000 \<le> n" "n < 10000"
    using assms by linarith
  then show ?thesis
  proof cases
    case 1
    then show ?thesis
      by (simp add: zeroFill_def decimal_digits_1 digit_0 replicate_3 replicate_2)
  next
    case 2
    then show ?thesis
      by (simp add: zeroFill_def decimal_digits_2 digit_0 replicate_3 replicate_2)
  next
    case 3
    then show ?thesis
      by (simp add: zeroFill_def decimal_digits_3 digit_0 replicate_3 replicate_2)
  next
    case 4
    then show ?thesis
      by (simp add: zeroFill_def decimal_digits_4)
  qed
qed

text \<open>
  For a year of the common era up to 9999 the format is four digits, two digits and
  two digits, separated by hyphens.
\<close>

lemma format_YYYY_MM_DD_digits:
  assumes "0 \<le> year d" "year d < 10000" "month d < 100" "day d < 100"
  shows "format_YYYY_MM_DD d =
           [digit (nat (year d) div 1000), digit (nat (year d) div 100 mod 10),
            digit (nat (year d) div 10 mod 10), digit (nat (year d) mod 10), CHR ''-'',
            digit (month d div 10), digit (month d mod 10), CHR ''-'',
            digit (day d div 10), digit (day d mod 10)]"
proof -
  from assms have "nat (year d) < 10000" by simp
  then have "zeroFill (int (nat (year d))) 4 =
           [digit (nat (year d) div 1000), digit (nat (year d) div 100 mod 10),
            digit (nat (year d) div 10 mod 10), digit (nat (year d) mod 10)]"
    by (rule zeroFill_4)
  with assms show ?thesis
    by (simp add: format_YYYY_MM_DD_def zeroFill_2)
qed

subsection \<open>The report page\<close>

text \<open>
  Claim C1. When the year of \<open>fromDate\<close> is earlier than the current year and \<open>details\<close>
  is not \<open>monthly\<close>, \<open>onSubmit\<close> leaves the state as it is, calls \<open>fetch\<close> not at all
  and shows the error toast; in every other case it calls \<open>fetch\<close> once, for the report,
  and shows no toast. \<open>onSubmit\<close> is what \<open>handleSubmit\<close> runs for a form that the schema
  accepts; the \<open>Toast\<close> is mounted with the form.
\<close>

theorem Home_onSubmit_rejects_earlier_year:
  assumes "toast_current s"
  shows "(year (fromDate data) < year now \<and> details data \<noteq> ''monthly'' \<longrightarrow>
            fst (Home_onSubmit now s data) = s \<and>
            requests (snd (Home_onSubmit now s data)) = [] \<and>
            toasts (snd (Home_onSubmit now s data)) =
              [\<lparr>severity = Error, summary = ''Form submit'',
                detail = Text ''Details must be monthly when required year less then current year''\<rparr>]) \<and>
         (\<not> (year (fromDate data) < year now \<and> details data \<noteq> ''monthly'') \<longrightarrow>
            requests (snd (Home_onSubmit now s data)) =
              [\<lparr>method = GET, url = updateTable_path data, body = None\<rparr>] \<and>
            toasts (snd (Home_onSubmit now s data)) = [])"
  using assms by (simp add: Home_onSubmit_def updateTable_def show_msg_def)

theorem Home_onSubmit_rejects_earlier_year_witness:
  "requests (snd (Home_onSubmit \<lparr>year = 2026, month = 11, day = 2\<rparr>
       \<lparr>measurements = JArr [], channels = [], energy_meterValues = [], toast_current = True\<rparr>
       \<lparr>fromDate = \<lparr>year = 2025, month = 3, day = 1\<rparr>, toDate = \<lparr>year = 2025, month = 3, day = 31\<rparr>,
        ipAddress = ''192.168.1.10'', channel = Some (- 1), details = ''daily''\<rparr>)) = [] \<and>
   toasts (snd (Home_onSubmit \<lparr>year = 2026, month = 11, day = 2\<rparr>
       \<lparr>measurements = JArr [], channels = [], energy_meterValues = [], toast_current = True\<rparr>
       \<lparr>fromDate = \<lparr>year = 2025, month = 3, day = 1\<rparr>, toDate = \<lparr>year = 2025, month = 3, day = 31\<rparr>,
        ipAddress = ''192.168.1.10'', channel = Some (- 1), details = ''daily''\<rparr>)) =
     [\<lparr>severity = Error, summary = ''Form submit'',
       detail = Text ''Details must be monthly when required year less then current year''\<rparr>] \<and>
   requests (snd (Home_onSubmit \<lparr>year = 2026, month = 11, day = 2\<rparr>
       \<lparr>measurements = JArr [], channels = [], energy_meterValues = [], toast_current = True\<rparr>
       \<lparr>fromDate = \<lparr>year = 2025, month = 3, day = 1\<rparr>, toDate = \<lparr>year = 2025, month = 3, day = 31\<rparr>,
        ipAddress = ''192.168.1.10'', channel = Some (- 1), details = ''monthly''\<rparr>)) =
     [\<lparr>method = GET,
       url = ''/api/measurements/report?fromdate=2025-03-01&todate=2025-03-31&ip=192.168.1.10&details=monthly'',
       body = None\<rparr>]"
  using
    Home_onSubmit_rejects_earlier_year [of
       "\<lparr>measurements = JArr [], channels = [], energy_meterValues = [], toast_current = True\<rparr>"
       "\<lparr>fromDate = \<lparr>year = 2025, month = 3, day = 1\<rparr>, toDate = \<lparr>year = 2025, month = 3, day = 31\<rparr>,
        ipAddress = ''192.168.1.10'', channel = Some (- 1), details = ''daily''\<rparr>"
       "\<lparr>year = 2026, month = 11, day = 2\<rparr>"]
    Home_onSubmit_rejects_earlier_year [of
       "\<lparr>measurements = JArr [], channels = [], energy_meterValues = [], toast_current = True\<rparr>"
       "\<lparr>fromDate = \<lparr>year = 2025, month = 3, day = 1\<rparr>, toDate = \<lparr>year = 2025, month = 3, day = 31\<rparr>,
        ipAddress = ''192.168.1.10'', channel = Some (- 1), details = ''monthly''\<rparr>"
       "\<lparr>year = 2026, month = 11, day = 2\<rparr>"]
  by (simp add: updateTable_path_def format_YYYY_MM_DD_def zeroFill_def decimal_digits_4 decimal_digits_2
        decimal_digits_1 digit_def replicate_2)

text \<open>
  Claim C5. A report response is a parsed row-set or an object. When it is an object
  whose \<open>err\<close> field is truthy, \<open>updateTable\<close> shows that field as an error toast and the
  measurements become the empty list; otherwise the measurements become the response.
  The parsed value \<open>null\<close> is neither a row-set nor an object: reading \<open>err\<close> from it
  throws (lemma \<open>updateTable_resume_null\<close> below).
\<close>

theorem updateTable_resume_err_or_rows:
  assumes "toast_current s" and "values \<noteq> JNull"
  shows "(\<forall>kvs e. values = JObj kvs \<and> map_of kvs ''err'' = Some e \<and> truthy e \<longrightarrow>
            updateTable_resume s (Resolved values) =
              Inr (s\<lparr>measurements := JArr []\<rparr>,
                   [Toast \<lparr>severity = Error, summary = ''Form submit'', detail = Value e\<rparr>])) \<and>
         (\<not> (\<exists>kvs e. values = JObj kvs \<and> map_of kvs ''err'' = Some e \<and> truthy e) \<longrightarrow>
            updateTable_resume s (Resolved values) = Inr (s\<lparr>measurements := values\<rparr>, []))"
  using assms
  by (cases "values") (auto simp: updateTable_resume_def show_msg_def split: option.splits)

theorem updateTable_resume_err_or_rows_witness:
  "updateTable_resume
       \<lparr>measurements = JArr [JObj [(''channel'', JNum 1)]], channels = [], energy_meterValues = [],
        toast_current = True\<rparr>
       (Resolved (JObj [(''err'', JStr ''No measurements'')])) =
     Inr (\<lparr>measurements = JArr [], channels = [], energy_meterValues = [], toast_current = True\<rparr>,
          [Toast \<lparr>severity = Error, summary = ''Form submit'', detail = Value (JStr ''No measurements'')\<rparr>]) \<and>
   updateTable_resume
       \<lparr>measurements = JArr [], channels = [], energy_meterValues = [], toast_current = True\<rparr>
       (Resolved (JArr [JObj [(''channel'', JNum 1), (''measured_value'', JNum 12.5)]])) =
     Inr (\<lparr>measurements = JArr [JObj [(''channel'', JNum 1), (''measured_value'', JNum 12.5)]],
           channels = [], energy_meterValues = [], toast_current = True\<rparr>, [])"
  using
    updateTable_resume_err_or_rows [of
       "\<lparr>measurements = JArr [JObj [(''channel'', JNum 1)]], channels = [], energy_meterValues = [],
         toast_current = True\<rparr>"
       "JObj [(''err'', JStr ''No measurements'')]"]
    updateTable_resume_err_or_rows [of
       "\<lparr>measurements = JArr [], channels = [], energy_meterValues = [], toast_current = True\<rparr>"
       "JArr [JObj [(''channel'', JNum 1), (''measured_value'', JNum 12.5)]]"]
  by simp

lemma updateTable_resume_null:
  "updateTable_resume s (Resolved JNull) =
     Inl (TypeError ''Cannot read properties of null (reading err)'')"
  by (simp add: updateTable_resume_def)

lemma updateTable_resume_rejected: "updateTable_resume s (Rejected e) = Inl e"
  by (simp add: updateTable_resume_def)

text \<open>
  Claim C6. For a submission that \<open>onSubmit\<close> accepts, the one request is a GET of
  \<open>/api/measurements/report\<close> with \<open>fromdate\<close> and \<open>todate\<close> in the format
  \<open>YYYY-MM-DD\<close>, \<open>ip\<close> the value of the selected device option (its \<open>ip_address\<close>),
  \<open>details\<close> the granularity, and \<open>channel\<close> appended exactly when the channel is a
  number greater than 0. The option "All" is the first of the channel options and has the
  value -1, so it appends nothing. The format gives four, two and two digits for the
  years 0 to 9999.
\<close>

theorem updateTable_url:
  assumes "\<not> (year (fromDate data) < year now \<and> details data \<noteq> ''monthly'')"
  shows "requests (snd (Home_onSubmit now s data)) =
           [\<lparr>method = GET,
             url = ''/api/measurements/report?fromdate='' @ format_YYYY_MM_DD (fromDate data)
                   @ ''&todate='' @ format_YYYY_MM_DD (toDate data)
                   @ ''&ip='' @ ipAddress data
                   @ ''&details='' @ details data
                   @ (if \<exists>c. channel data = Some c \<and> 0 < c
                      then ''&channel='' @ Number_toString (the (channel data)) else []),
             body = None\<rparr>] \<and>
         channel_options s ! 0 = (''All'', - 1) \<and>
         (channel data = Some (snd (channel_options s ! 0)) \<longrightarrow>
            requests (snd (Home_onSubmit now s data)) =
              [\<lparr>method = GET,
                url = ''/api/measurements/report?fromdate='' @ format_YYYY_MM_DD (fromDate data)
                      @ ''&todate='' @ format_YYYY_MM_DD (toDate data)
                      @ ''&ip='' @ ipAddress data
                      @ ''&details='' @ details data,
                body = None\<rparr>]) \<and>
         (\<forall>i < length (energy_meterValues s).
            snd (ipAddress_options s ! i) = ip_address (energy_meterValues s ! i)) \<and>
         (\<forall>d. 0 \<le> year d \<and> year d < 10000 \<and> month d < 100 \<and> day d < 100 \<longrightarrow>
            format_YYYY_MM_DD d =
              [digit (nat (year d) div 1000), digit (nat (year d) div 100 mod 10),
               digit (nat (year d) div 10 mod 10), digit (nat (year d) mod 10), CHR ''-'',
               digit (month d div 10), digit (month d mod 10), CHR ''-'',
               digit (day d div 10), digit (day d mod 10)])"
proof -
  from assms have eq: "Home_onSubmit now s data = updateTable s data"
    by (auto simp: Home_onSubmit_def)
  have "requests (snd (updateTable s data)) =
           [\<lparr>method = GET,
             url = ''/api/measurements/report?fromdate='' @ format_YYYY_MM_DD (fromDate data)
                   @ ''&todate='' @ format_YYYY_MM_DD (toDate data)
                   @ ''&ip='' @ ipAddress data
                   @ ''&details='' @ details data
                   @ (if \<exists>c. channel data = Some c \<and> 0 < c
                      then ''&channel='' @ Number_toString (the (channel data)) else []),
             body = None\<rparr>]"
    by (auto simp: updateTable_def updateTable_path_def Let_def split: option.splits)
  moreover have "channel_options s ! 0 = (''All'', - 1)"
    by (simp add: channel_options_def)
  ultimately show ?thesis
    by (simp add: eq format_YYYY_MM_DD_digits ipAddress_options_def)
qed

theorem updateTable_url_witness:
  "requests (snd (Home_onSubmit \<lparr>year = 2026, month = 11, day = 2\<rparr>
       \<lparr>measurements = JArr [], channels = [], energy_meterValues = [], toast_current = True\<rparr>
       \<lparr>fromDate = \<lparr>year = 2026, month = 3, day = 1\<rparr>, toDate = \<lparr>year = 2026, month = 3, day = 31\<rparr>,
        ipAddress = ''192.168.1.10'', channel = Some 2, details = ''hourly''\<rparr>)) =
     [\<lparr>method = GET,
       url = ''/api/measurements/report?fromdate=2026-03-01&todate=2026-03-31&ip=192.168.1.10&details=hourly&channel=2'',
       body = None\<rparr>]"
proof -
  have "\<not> (year (fromDate \<lparr>fromDate = \<lparr>year = 2026, month = 3, day = 1\<rparr>,
                toDate = \<lparr>year = 2026, month = 3, day = 31\<rparr>,
                ipAddress = ''192.168.1.10'', channel = Some 2, details = ''hourly''\<rparr>)
            < year \<lparr>year = 2026, month = 11, day = 2\<rparr> \<and>
            details \<lparr>fromDate = \<lparr>year = 2026, month = 3, day = 1\<rparr>,
                toDate = \<lparr>year = 2026, month = 3, day = 31\<rparr>,
                ipAddress = ''192.168.1.10'', channel = Some 2, details = ''hourly''\<rparr> \<noteq> ''monthly'')"
    by simp
  from updateTable_url [OF this, THEN conjunct1] show ?thesis
    by (simp add: format_YYYY_MM_DD_def zeroFill_def decimal_digits_4 decimal_digits_2
        decimal_digits_1 digit_def replicate_2 Number_toString_def)
qed

subsection \<open>The table pages\<close>

lemma run_snoc: "run step s (es @ [e]) = fst (step (run step s es) e)"
  by (induction es arbitrary: s) simp_all

lemma in_requests: "Fetch r \<in> set es \<longleftrightarrow> r \<in> set (requests es)"
  by (induction es rule: requests.induct) auto

lemma Channels_settled_requests: "requests (snd (Channels_settled env m s res)) = []"
  by (simp add: Channels_settled_def Channels_updatePage_def show_msg_def
      split: http_method.splits outcome.splits)

lemma EnergyMeter_settled_requests: "requests (snd (EnergyMeter_settled env m s res)) = []"
  by (simp add: EnergyMeter_settled_def EnergyMeter_updatePage_def show_msg_def
      split: http_method.splits outcome.splits)

text \<open>
  Claim C7. On both pages a filter change stores the event with \<open>first\<close> set to 0, a
  page change stores the event as it is; neither touches the rest of the state nor has
  an effect.
\<close>

theorem table_state_change:
  "Channels_step env s (OnFilter e) = (s\<lparr>lazyState := e\<lparr>first := 0\<rparr>\<rparr>, []) \<and>
   Channels_step env s (OnPage e) = (s\<lparr>lazyState := e\<rparr>, []) \<and>
   EnergyMeter_step env s' (OnFilter e) = (s'\<lparr>lazyState := e\<lparr>first := 0\<rparr>\<rparr>, []) \<and>
   EnergyMeter_step env s' (OnPage e) = (s'\<lparr>lazyState := e\<rparr>, [])"
  by (simp add: onFilter_def onPage_def)

theorem table_state_change_witness:
  "lazyState (fst (Channels_step
       \<lparr>JSON_stringify = (\<lambda>v. []), ip_v4 = (\<lambda>a. True), defaultTimeZone = ''Europe/Budapest''\<rparr>
       Channels_init
       (OnFilter \<lparr>first = 20, rows = 10, page = 2, pageCount = 5, sortField = [], sortOrder = 1,
                  multiSortMeta = [], filters = [(''channel_name'', JStr ''Boi'', ''startsWith'')]\<rparr>))) =
     \<lparr>first = 0, rows = 10, page = 2, pageCount = 5, sortField = [], sortOrder = 1,
      multiSortMeta = [], filters = [(''channel_name'', JStr ''Boi'', ''startsWith'')]\<rparr> \<and>
   lazyState (fst (EnergyMeter_step
       \<lparr>JSON_stringify = (\<lambda>v. []), ip_v4 = (\<lambda>a. True), defaultTimeZone = ''Europe/Budapest''\<rparr>
       (EnergyMeter_init
          \<lparr>JSON_stringify = (\<lambda>v. []), ip_v4 = (\<lambda>a. True), defaultTimeZone = ''Europe/Budapest''\<rparr>)
       (OnPage \<lparr>first = 20, rows = 10, page = 2, pageCount = 5, sortField = [], sortOrder = 1,
                multiSortMeta = [], filters = []\<rparr>))) =
     \<lparr>first = 20, rows = 10, page = 2, pageCount = 5, sortField = [], sortOrder = 1,
      multiSortMeta = [], filters = []\<rparr>"
  using
    table_state_change [of
       "\<lparr>JSON_stringify = (\<lambda>v. []), ip_v4 = (\<lambda>a. True), defaultTimeZone = ''Europe/Budapest''\<rparr>"
       Channels_init
       "\<lparr>first = 20, rows = 10, page = 2, pageCount = 5, sortField = [], sortOrder = 1,
         multiSortMeta = [], filters = [(''channel_name'', JStr ''Boi'', ''startsWith'')]\<rparr>"]
    table_state_change [of
       "\<lparr>JSON_stringify = (\<lambda>v. []), ip_v4 = (\<lambda>a. True), defaultTimeZone = ''Europe/Budapest''\<rparr>"
       _
       "\<lparr>first = 20, rows = 10, page = 2, pageCount = 5, sortField = [], sortOrder = 1,
         multiSortMeta = [], filters = []\<rparr>"
       "EnergyMeter_init
          \<lparr>JSON_stringify = (\<lambda>v. []), ip_v4 = (\<lambda>a. True), defaultTimeZone = ''Europe/Budapest''\<rparr>"]
  by (simp del: Channels_step.simps EnergyMeter_step.simps)

text \<open>
  Claim C10. With no row selected, \<open>deleteSelectedRow\<close> of either page returns the state
  as it is and has no effect: no request, no toast, no invalidation.
\<close>

theorem deleteSelectedRow_without_selection:
  assumes "selectedRow s = None" and "selectedRow s' = None"
  shows "Channels_deleteSelectedRow s = (s, []) \<and> EnergyMeter_deleteSelectedRow s' = (s', [])"
  using assms by (simp add: Channels_deleteSelectedRow_def EnergyMeter_deleteSelectedRow_def)

theorem deleteSelectedRow_without_selection_witness:
  "Channels_deleteSelectedRow Channels_init = (Channels_init, []) \<and>
   EnergyMeter_deleteSelectedRow
       (EnergyMeter_init
          \<lparr>JSON_stringify = (\<lambda>v. []), ip_v4 = (\<lambda>a. True), defaultTimeZone = ''Europe/Budapest''\<rparr>) =
     (EnergyMeter_init
        \<lparr>JSON_stringify = (\<lambda>v. []), ip_v4 = (\<lambda>a. True), defaultTimeZone = ''Europe/Budapest''\<rparr>, [])"
proof -
  have "selectedRow Channels_init = None"
    by (simp add: Channels_init_def)
  moreover have "selectedRow (EnergyMeter_init
          \<lparr>JSON_stringify = (\<lambda>v. []), ip_v4 = (\<lambda>a. True), defaultTimeZone = ''Europe/Budapest''\<rparr>) = None"
    by (simp add: EnergyMeter_init_def)
  ultimately show ?thesis
    by (rule deleteSelectedRow_without_selection)
qed

text \<open>
  Claim C9. The list query of either page hands the table as many rows as it fetched,
  and the \<open>enabled\<close> of each is the boolean \<open>true\<close> when the fetched value is truthy and
  the boolean \<open>false\<close> when it is not.
\<close>

theorem queryFn_enabled_boolean:
  "length (Channels_queryFn values energyMetersValues) = length values \<and>
   (\<forall>i < length values.
      ch_enabled (Channels_queryFn values energyMetersValues ! i) =
        JBool (truthy (ch_enabled (values ! i)))) \<and>
   length (EnergyMeter_queryFn values') = length values' \<and>
   (\<forall>i < length values'.
      em_enabled (EnergyMeter_queryFn values' ! i) = JBool (truthy (em_enabled (values' ! i))))"
  by (simp add: Channels_queryFn_def EnergyMeter_queryFn_def Let_def)

theorem queryFn_enabled_boolean_witness:
  "map ch_enabled (Channels_queryFn
       [\<lparr>ch_oid = 1, ch_id = 3, energy_meter_id = 7, ch_channel = 2, channel_name = ''Boiler'',
         ch_enabled = JNum 1, assset_name = None\<rparr>,
        \<lparr>ch_oid = 2, ch_id = 4, energy_meter_id = 7, ch_channel = 3, channel_name = ''Pump'',
         ch_enabled = JNum 0, assset_name = None\<rparr>] []) = [JBool True, JBool False] \<and>
   map em_enabled (EnergyMeter_queryFn
       [\<lparr>em_oid = 1, em_id = 7, asset_name = ''Meter A'', ip_address = ''192.168.1.237'',
         port = 50003, time_zone = ''Europe/Budapest'', em_enabled = JNull\<rparr>]) = [JBool False]"
proof -
  let ?chs = "[\<lparr>ch_oid = 1, ch_id = 3, energy_meter_id = 7, ch_channel = 2, channel_name = ''Boiler'',
         ch_enabled = JNum 1, assset_name = None\<rparr>,
        \<lparr>ch_oid = 2, ch_id = 4, energy_meter_id = 7, ch_channel = 3, channel_name = ''Pump'',
         ch_enabled = JNum 0, assset_name = None\<rparr>]"
  let ?ems = "[\<lparr>em_oid = 1, em_id = 7, asset_name = ''Meter A'', ip_address = ''192.168.1.237'',
         port = 50003, time_zone = ''Europe/Budapest'', em_enabled = JNull\<rparr>]"
  note q = queryFn_enabled_boolean [of "?chs" "[]" "?ems"]
  have "map ch_enabled (Channels_queryFn ?chs []) = [JBool True, JBool False]"
  proof (rule nth_equalityI)
    show "length (map ch_enabled (Channels_queryFn ?chs [])) = length [JBool True, JBool False]"
      using q by simp
    fix i assume "i < length (map ch_enabled (Channels_queryFn ?chs []))"
    with q have i: "i < 2" by simp
    then consider "i = 0" | "i = 1" by linarith
    then show "map ch_enabled (Channels_queryFn ?chs []) ! i = [JBool True, JBool False] ! i"
      using q by cases simp_all
  qed
  moreover have "map em_enabled (EnergyMeter_queryFn ?ems) = [JBool False]"
  proof (rule nth_equalityI)
    show "length (map em_enabled (EnergyMeter_queryFn ?ems)) = length [JBool False]"
      using q by simp
    fix i assume "i < length (map em_enabled (EnergyMeter_queryFn ?ems))"
    with q have i: "i = 0" by simp
    then show "map em_enabled (EnergyMeter_queryFn ?ems) ! i = [JBool False] ! i"
      using q by simp
  qed
  ultimately show ?thesis by simp
qed

text \<open>
  Claim C8. For the \<open>i\<close>-th fetched channel row: when a fetched energy meter has the
  row's \<open>energy_meter_id\<close> as its \<open>id\<close>, the row handed to the table carries in
  \<open>assset_name\<close> (the field of the table column) the \<open>asset_name\<close> of such a meter, the
  first one in the collection; when none has, \<open>assset_name\<close> is what the fetched row had,
  so a row that came without it stays without it. The other fields of the row are kept.
\<close>

lemma find_filter:
  "find P xs = (case filter P xs of [] \<Rightarrow> None | x # _ \<Rightarrow> Some x)"
  by (induction xs) auto

theorem Channels_queryFn_asset_name:
  assumes "i < length values"
  shows "((\<exists>m \<in> set energyMetersValues. em_id m = energy_meter_id (values ! i)) \<longrightarrow>
            (\<exists>m \<in> set energyMetersValues. em_id m = energy_meter_id (values ! i) \<and>
               find (\<lambda>energyMeter. em_id energyMeter = energy_meter_id (values ! i)) energyMetersValues = Some m \<and>
               assset_name (Channels_queryFn values energyMetersValues ! i) = Some (asset_name m))) \<and>
         ((\<forall>m \<in> set energyMetersValues. em_id m \<noteq> energy_meter_id (values ! i)) \<longrightarrow>
            assset_name (Channels_queryFn values energyMetersValues ! i) = assset_name (values ! i)) \<and>
         ch_oid (Channels_queryFn values energyMetersValues ! i) = ch_oid (values ! i) \<and>
         ch_id (Channels_queryFn values energyMetersValues ! i) = ch_id (values ! i) \<and>
         energy_meter_id (Channels_queryFn values energyMetersValues ! i) = energy_meter_id (values ! i) \<and>
         ch_channel (Channels_queryFn values energyMetersValues ! i) = ch_channel (values ! i) \<and>
         channel_name (Channels_queryFn values energyMetersValues ! i) = channel_name (values ! i)"
proof -
  let ?P = "\<lambda>energyMeter. em_id energyMeter = energy_meter_id (values ! i)"
  have found: "\<exists>m \<in> set energyMetersValues. ?P m \<and> find ?P energyMetersValues = Some m \<and>
          assset_name (Channels_queryFn values energyMetersValues ! i) = Some (asset_name m)"
    if "\<exists>m \<in> set energyMetersValues. ?P m"
  proof -
    from that obtain m ms where f: "filter ?P energyMetersValues = m # ms"
      by (cases "filter ?P energyMetersValues") (auto simp: filter_empty_conv)
    then have "m \<in> set (filter ?P energyMetersValues)" by simp
    then have "m \<in> set energyMetersValues" "?P m" by simp_all
    moreover from f have "find ?P energyMetersValues = Some m"
      by (simp add: find_filter)
    moreover from f assms
    have "assset_name (Channels_queryFn values energyMetersValues ! i) = Some (asset_name m)"
      by (simp add: Channels_queryFn_def Let_def)
    ultimately show ?thesis by blast
  qed
  have missing: "assset_name (Channels_queryFn values energyMetersValues ! i) = assset_name (values ! i)"
    if "\<forall>m \<in> set energyMetersValues. \<not> ?P m"
  proof -
    from that have "filter ?P energyMetersValues = []"
      by (simp add: filter_empty_conv)
    with assms show ?thesis
      by (simp add: Channels_queryFn_def Let_def)
  qed
  from assms have "ch_oid (Channels_queryFn values energyMetersValues ! i) = ch_oid (values ! i)"
    "ch_id (Channels_queryFn values energyMetersValues ! i) = ch_id (values ! i)"
    "energy_meter_id (Channels_queryFn values energyMetersValues ! i) = energy_meter_id (values ! i)"
    "ch_channel (Channels_queryFn values energyMetersValues ! i) = ch_channel (values ! i)"
    "channel_name (Channels_queryFn values energyMetersValues ! i) = channel_name (values ! i)"
    by (simp_all add: Channels_queryFn_def Let_def)
  with found missing show ?thesis by blast
qed

theorem Channels_queryFn_asset_name_witness:
  "assset_name (Channels_queryFn
       [\<lparr>ch_oid = 1, ch_id = 3, energy_meter_id = 7, ch_channel = 2, channel_name = ''Boiler'',
         ch_enabled = JNum 1, assset_name = None\<rparr>,
        \<lparr>ch_oid = 2, ch_id = 4, energy_meter_id = 9, ch_channel = 1, channel_name = ''Pump'',
         ch_enabled = JNum 0, assset_name = None\<rparr>]
       [\<lparr>em_oid = 3, em_id = 7, asset_name = ''Meter A'', ip_address = ''192.168.1.237'',
         port = 50003, time_zone = ''Europe/Budapest'', em_enabled = JNum 1\<rparr>] ! 0) = Some ''Meter A'' \<and>
   assset_name (Channels_queryFn
       [\<lparr>ch_oid = 1, ch_id = 3, energy_meter_id = 7, ch_channel = 2, channel_name = ''Boiler'',
         ch_enabled = JNum 1, assset_name = None\<rparr>,
        \<lparr>ch_oid = 2, ch_id = 4, energy_meter_id = 9, ch_channel = 1, channel_name = ''Pump'',
         ch_enabled = JNum 0, assset_name = None\<rparr>]
       [\<lparr>em_oid = 3, em_id = 7, asset_name = ''Meter A'', ip_address = ''192.168.1.237'',
         port = 50003, time_zone = ''Europe/Budapest'', em_enabled = JNum 1\<rparr>] ! 1) = None"
  using
    Channels_queryFn_asset_name [of 0
       "[\<lparr>ch_oid = 1, ch_id = 3, energy_meter_id = 7, ch_channel = 2, channel_name = ''Boiler'',
          ch_enabled = JNum 1, assset_name = None\<rparr>,
         \<lparr>ch_oid = 2, ch_id = 4, energy_meter_id = 9, ch_channel = 1, channel_name = ''Pump'',
          ch_enabled = JNum 0, assset_name = None\<rparr>]"
       "[\<lparr>em_oid = 3, em_id = 7, asset_name = ''Meter A'', ip_address = ''192.168.1.237'',
          port = 50003, time_zone = ''Europe/Budapest'', em_enabled = JNum 1\<rparr>]"]
    Channels_queryFn_asset_name [of 1
       "[\<lparr>ch_oid = 1, ch_id = 3, energy_meter_id = 7, ch_channel = 2, channel_name = ''Boiler'',
          ch_enabled = JNum 1, assset_name = None\<rparr>,
         \<lparr>ch_oid = 2, ch_id = 4, energy_meter_id = 9, ch_channel = 1, channel_name = ''Pump'',
          ch_enabled = JNum 0, assset_name = None\<rparr>]"
       "[\<lparr>em_oid = 3, em_id = 7, asset_name = ''Meter A'', ip_address = ''192.168.1.237'',
          port = 50003, time_zone = ''Europe/Budapest'', em_enabled = JNum 1\<rparr>]"]
  by simp

text \<open>
  A request with the method DELETE comes only from the accept button of the confirm
  dialog, in a state where that dialog is on the screen.
\<close>

lemma Channels_step_DELETE:
  assumes "Fetch r \<in> set (snd (Channels_step env s ev))" and "method r = DELETE"
  shows "ev = ConfirmAccept \<and> confirmDialogVisible s"
proof (cases ev)
  case (Settled m res)
  with assms Channels_settled_requests [of env m s res] show ?thesis
    by (simp add: in_requests)
next
  case Submit
  with assms show ?thesis
    by (auto simp: Channels_handleSubmit_def Channels_onSubmit_def Channels_onSubmitError_def
        show_msg_def Let_def split: option.splits if_splits)
next
  case ClickNew
  with assms show ?thesis
    by (auto simp: Channels_click_New_def Channels_setEditedRow_def Channels_useEffect_def
        Let_def split: option.splits if_splits prod.splits)
next
  case ClickModify
  with assms show ?thesis
    by (auto simp: Channels_click_Modify_def Channels_setEditedRow_def Channels_useEffect_def
        Let_def split: option.splits if_splits prod.splits)
next
  case ConfirmAccept
  with assms show ?thesis
    by (auto split: if_splits)
qed (use assms in \<open>auto split: if_splits\<close>)

lemma EnergyMeter_step_DELETE:
  assumes "Fetch r \<in> set (snd (EnergyMeter_step env s ev))" and "method r = DELETE"
  shows "ev = ConfirmAccept \<and> confirmDialogVisible s"
proof (cases ev)
  case (Settled m res)
  with assms EnergyMeter_settled_requests [of env m s res] show ?thesis
    by (simp add: in_requests)
next
  case Submit
  with assms show ?thesis
    by (auto simp: EnergyMeter_handleSubmit_def EnergyMeter_onSubmit_def EnergyMeter_onSubmitError_def
        show_msg_def Let_def split: option.splits if_splits)
next
  case ConfirmAccept
  with assms show ?thesis
    by (auto split: if_splits)
qed (use assms in \<open>auto split: if_splits\<close>)

lemma Channels_step_confirmDialogVisible:
  assumes "confirmDialogVisible (fst (Channels_step env s ev))"
  shows "ev = ClickDelete \<or> confirmDialogVisible s"
proof (cases ev)
  case (Settled m res)
  with assms show ?thesis
    by (auto simp: Channels_settled_def Channels_updatePage_def
        split: http_method.splits outcome.splits)
next
  case ClickNew
  with assms show ?thesis
    by (auto simp: Channels_click_New_def Channels_setEditedRow_def Channels_useEffect_def
        Let_def split: option.splits if_splits prod.splits)
next
  case ClickModify
  with assms show ?thesis
    by (auto simp: Channels_click_Modify_def Channels_setEditedRow_def Channels_useEffect_def
        Let_def split: option.splits if_splits prod.splits)
next
  case Submit
  with assms show ?thesis
    by (auto simp: Channels_handleSubmit_def Channels_onSubmit_def Channels_onSubmitError_def
        Let_def split: option.splits if_splits)
next
  case (Change c)
  with assms show ?thesis
    by (auto simp: Channels_field_onChange_def split: if_splits Channels_change.splits)
next
  case ConfirmAccept
  with assms show ?thesis
    by (auto simp: Channels_deleteSelectedRow_def split: if_splits option.splits)
qed (use assms in \<open>auto simp: onPage_def onFilter_def onSelectionChange_def split: if_splits\<close>)

lemma EnergyMeter_step_confirmDialogVisible:
  assumes "confirmDialogVisible (fst (EnergyMeter_step env s ev))"
  shows "ev = ClickDelete \<or> confirmDialogVisible s"
proof (cases ev)
  case (Settled m res)
  with assms show ?thesis
    by (auto simp: EnergyMeter_settled_def EnergyMeter_updatePage_def
        split: http_method.splits outcome.splits)
next
  case ClickNew
  with assms show ?thesis
    by (auto simp: EnergyMeter_click_New_def EnergyMeter_setEditedRow_def EnergyMeter_useEffect_def
        Let_def split: option.splits if_splits)
next
  case ClickModify
  with assms show ?thesis
    by (auto simp: EnergyMeter_click_Modify_def EnergyMeter_setEditedRow_def EnergyMeter_useEffect_def
        Let_def split: option.splits if_splits)
next
  case Submit
  with assms show ?thesis
    by (auto simp: EnergyMeter_handleSubmit_def EnergyMeter_onSubmit_def EnergyMeter_onSubmitError_def
        Let_def split: option.splits if_splits)
next
  case (Change c)
  with assms show ?thesis
    by (auto simp: EnergyMeter_field_onChange_def split: if_splits EnergyMeter_change.splits)
next
  case ConfirmAccept
  with assms show ?thesis
    by (auto simp: EnergyMeter_deleteSelectedRow_def split: if_splits option.splits)
qed (use assms in \<open>auto simp: onPage_def onFilter_def onSelectionChange_def split: if_splits\<close>)

text \<open>The confirm dialog is on the screen only after a click on Delete.\<close>

lemma Channels_confirm_after_ClickDelete:
  "confirmDialogVisible (run (Channels_step env) Channels_init evs) \<Longrightarrow> ClickDelete \<in> set evs"
proof (induction evs rule: rev_induct)
  case Nil
  then show ?case by (simp add: Channels_init_def)
next
  case (snoc e es)
  then show ?case
    using Channels_step_confirmDialogVisible [of env "run (Channels_step env) Channels_init es" e]
    by (auto simp: run_snoc)
qed

lemma EnergyMeter_confirm_after_ClickDelete:
  "confirmDialogVisible (run (EnergyMeter_step env) (EnergyMeter_init env) evs) \<Longrightarrow> ClickDelete \<in> set evs"
proof (induction evs rule: rev_induct)
  case Nil
  then show ?case by (simp add: EnergyMeter_init_def)
next
  case (snoc e es)
  then show ?case
    using EnergyMeter_step_confirmDialogVisible [of env "run (EnergyMeter_step env) (EnergyMeter_init env) es" e]
    by (auto simp: run_snoc)
qed

text \<open>
  Claim C4. In every run of either page from its mounted state, an event that sends a
  DELETE is the accept of the confirm dialog, taken while the dialog is shown, and a
  click on Delete (the only way to show the dialog) has come before it.
\<close>

theorem DELETE_only_after_confirmation:
  "(\<forall>r. Fetch r \<in> set (snd (Channels_step env (run (Channels_step env) Channels_init evs) ev)) \<and>
        method r = DELETE \<longrightarrow>
        ev = ConfirmAccept \<and> confirmDialogVisible (run (Channels_step env) Channels_init evs) \<and>
        ClickDelete \<in> set evs) \<and>
   (\<forall>r. Fetch r \<in> set (snd (EnergyMeter_step env (run (EnergyMeter_step env) (EnergyMeter_init env) evs') ev')) \<and>
        method r = DELETE \<longrightarrow>
        ev' = ConfirmAccept \<and> confirmDialogVisible (run (EnergyMeter_step env) (EnergyMeter_init env) evs') \<and>
        ClickDelete \<in> set evs')"
  using Channels_step_DELETE Channels_confirm_after_ClickDelete
    EnergyMeter_step_DELETE EnergyMeter_confirm_after_ClickDelete
  by blast


theorem DELETE_only_after_confirmation_witness:
  "snd (Channels_step \<lparr>JSON_stringify = (\<lambda>v. []), ip_v4 = (\<lambda>a. True), defaultTimeZone = ''Europe/Budapest''\<rparr>
     (run (Channels_step \<lparr>JSON_stringify = (\<lambda>v. []), ip_v4 = (\<lambda>a. True), defaultTimeZone = ''Europe/Budapest''\<rparr>)
        Channels_init
        [OnSelectionChange
           (Some \<lparr>ch_oid = 1, ch_id = 3, energy_meter_id = 7, ch_channel = 2, channel_name = ''Boiler'',
                  ch_enabled = JBool True, assset_name = Some ''Meter A''\<rparr>),
         ClickDelete])
     ConfirmAccept) =
     [Fetch \<lparr>method = DELETE, url = ''/api/admin/crud/channels/3'', body = Some (Action ''delete'')\<rparr>] \<and>
   confirmDialogVisible
     (run (Channels_step \<lparr>JSON_stringify = (\<lambda>v. []), ip_v4 = (\<lambda>a. True), defaultTimeZone = ''Europe/Budapest''\<rparr>)
        Channels_init
        [OnSelectionChange
           (Some \<lparr>ch_oid = 1, ch_id = 3, energy_meter_id = 7, ch_channel = 2, channel_name = ''Boiler'',
                  ch_enabled = JBool True, assset_name = Some ''Meter A''\<rparr>),
         ClickDelete])"
proof -
  let ?env = "\<lparr>JSON_stringify = (\<lambda>v. []), ip_v4 = (\<lambda>a. True), defaultTimeZone = ''Europe/Budapest''\<rparr>"
  let ?row = "\<lparr>ch_oid = 1, ch_id = 3, energy_meter_id = 7, ch_channel = 2, channel_name = ''Boiler'',
                ch_enabled = JBool True, assset_name = Some ''Meter A''\<rparr>"
  let ?evs = "[OnSelectionChange (Some ?row), ClickDelete]"
  let ?r = "\<lparr>method = DELETE, url = ''/api/admin/crud/channels/3'', body = Some (Action ''delete'')\<rparr>
              :: Channels_FormValues request"
  have eff: "snd (Channels_step ?env (run (Channels_step ?env) Channels_init ?evs) ConfirmAccept) = [Fetch ?r]"
    by (simp add: Channels_init_def onSelectionChange_def Channels_button_disabled_def
        Channels_deleteSelectedRow_def Number_toString_def decimal_digits_1 digit_def)
  then have "Fetch ?r \<in> set (snd (Channels_step ?env (run (Channels_step ?env) Channels_init ?evs) ConfirmAccept))
             \<and> method ?r = DELETE"
    by (simp only: list.set_intros request.select_convs simp_thms)
  with DELETE_only_after_confirmation [of ?env ?evs ConfirmAccept]
  have "confirmDialogVisible (run (Channels_step ?env) Channels_init ?evs)"
    by blast
  with eff show ?thesis
    by (simp only: simp_thms)
qed


text \<open>
  In every state that a run reaches, the form holds the \<open>ip_address\<close> and the \<open>port\<close>
  of the edited row.
\<close>

lemma edit_form_bound_init: "edit_form_bound (EnergyMeter_init env)"
  by (simp add: edit_form_bound_def EnergyMeter_init_def)

lemma edit_form_bound_step:
  assumes "edit_form_bound s"
  shows "edit_form_bound (fst (EnergyMeter_step env s ev))"
proof (cases ev)
  case (Settled m res)
  with assms show ?thesis
    by (auto simp: edit_form_bound_def EnergyMeter_settled_def EnergyMeter_updatePage_def
        split: http_method.splits outcome.splits option.splits)
next
  case ClickNew
  with assms show ?thesis
    by (auto simp: edit_form_bound_def EnergyMeter_click_New_def EnergyMeter_setEditedRow_def
        EnergyMeter_useEffect_def Let_def split: option.splits if_splits)
next
  case ClickModify
  with assms show ?thesis
    by (auto simp: edit_form_bound_def EnergyMeter_click_Modify_def EnergyMeter_setEditedRow_def
        EnergyMeter_useEffect_def EnergyMeter_button_disabled_def Let_def
        split: option.splits if_splits)
next
  case Submit
  with assms show ?thesis
    by (auto simp: edit_form_bound_def EnergyMeter_handleSubmit_def EnergyMeter_onSubmit_def
        EnergyMeter_onSubmitError_def Let_def split: option.splits if_splits)
next
  case (Change c)
  with assms show ?thesis
    by (cases c)
      (auto simp: edit_form_bound_def EnergyMeter_field_onChange_def EnergyMeter_input_disabled_def
        split: if_splits option.splits)
next
  case ConfirmAccept
  with assms show ?thesis
    by (auto simp: edit_form_bound_def EnergyMeter_deleteSelectedRow_def split: if_splits option.splits)
qed (use assms in \<open>auto simp: edit_form_bound_def onPage_def onFilter_def onSelectionChange_def
      split: if_splits option.splits\<close>)

lemma edit_form_bound_run:
  "edit_form_bound (run (EnergyMeter_step env) (EnergyMeter_init env) evs)"
proof (induction evs rule: rev_induct)
  case Nil
  show ?case by (simp add: edit_form_bound_init)
next
  case (snoc e es)
  then show ?case
    by (simp add: run_snoc edit_form_bound_step)
qed

text \<open>A PUT or POST comes only from the submit of a form that the schema accepts.\<close>

lemma EnergyMeter_step_mutation:
  assumes "Fetch r \<in> set (snd (EnergyMeter_step env s ev))" and "method r = PUT \<or> method r = POST"
  shows "ev = Submit \<and> visible s \<and>
         (\<exists>data. EnergyMeter_schema env (formValues s) = Some data \<and>
                 snd (EnergyMeter_step env s ev) = snd (EnergyMeter_onSubmit s data))"
proof (cases ev)
  case (Settled m res)
  with assms EnergyMeter_settled_requests [of env m s res] show ?thesis
    by (simp add: in_requests)
next
  case Submit
  with assms show ?thesis
    by (auto simp: EnergyMeter_handleSubmit_def EnergyMeter_onSubmitError_def
        show_msg_def split: option.splits if_splits)
next
  case ConfirmAccept
  with assms show ?thesis
    by (auto simp: EnergyMeter_deleteSelectedRow_def split: if_splits option.splits)
qed (use assms in \<open>auto split: if_splits\<close>)

text \<open>
  Claim C2. Let the EnergyMeter page, in any run from its mounted state, edit a row
  whose \<open>id\<close> is greater than -1 (the ids that the component takes for those of
  existing records). Then the inputs of \<open>ip_address\<close> and \<open>port\<close> are disabled, and
  whatever happens next, a request that creates or updates is a PUT to that row's
  resource whose body carries the row's own \<open>ip_address\<close> and \<open>port\<close>.
\<close>

theorem EnergyMeter_update_keeps_ip_address_and_port:
  assumes "s = run (EnergyMeter_step env) (EnergyMeter_init env) evs"
    and "editedRow s = Some row" and "em_id row > - 1"
  shows "EnergyMeter_input_disabled s \<and>
         (\<forall>ev r. Fetch r \<in> set (snd (EnergyMeter_step env s ev)) \<and> (method r = PUT \<or> method r = POST) \<longrightarrow>
            method r = PUT \<and>
            url r = ''/api/admin/crud/energy_meter/'' @ Number_toString (em_id row) \<and>
            (\<exists>params. body r = Some (Params params) \<and>
                       ep_ip_address params = ip_address row \<and> ep_port params = port row))"
proof -
  have bound: "edit_form_bound s"
    using assms(1) by (simp add: edit_form_bound_run)
  with assms(2,3) have form: "em_id row \<noteq> 0" "ef_ip_address (formValues s) = ip_address row"
    "ef_port (formValues s) = Some (port row)"
    by (simp_all add: edit_form_bound_def)
  have disabled: "EnergyMeter_input_disabled s"
    using assms(2,3) by (simp add: EnergyMeter_input_disabled_def)
  have "method r = PUT \<and>
        url r = ''/api/admin/crud/energy_meter/'' @ Number_toString (em_id row) \<and>
        (\<exists>params. body r = Some (Params params) \<and>
                   ep_ip_address params = ip_address row \<and> ep_port params = port row)"
    if r: "Fetch r \<in> set (snd (EnergyMeter_step env s ev))" "method r = PUT \<or> method r = POST"
    for ev r
  proof -
    from EnergyMeter_step_mutation [OF r] obtain data where
      data: "EnergyMeter_schema env (formValues s) = Some data"
      and eff: "snd (EnergyMeter_step env s ev) = snd (EnergyMeter_onSubmit s data)"
      by blast
    from data form have "ep_ip_address data = ip_address row" "ep_port data = port row"
      by (auto simp: EnergyMeter_schema_def split: option.splits if_splits)
    with r(1) eff assms(2) form(1) show ?thesis
      by (auto simp: EnergyMeter_onSubmit_def Let_def)
  qed
  with disabled show ?thesis by blast
qed


theorem EnergyMeter_update_keeps_ip_address_and_port_witness:
  "EnergyMeter_input_disabled
     (run (EnergyMeter_step \<lparr>JSON_stringify = (\<lambda>v. []), ip_v4 = (\<lambda>a. True), defaultTimeZone = ''Europe/Budapest''\<rparr>)
        (EnergyMeter_init \<lparr>JSON_stringify = (\<lambda>v. []), ip_v4 = (\<lambda>a. True), defaultTimeZone = ''Europe/Budapest''\<rparr>)
        [OnSelectionChange
           (Some \<lparr>em_oid = 1, em_id = 7, asset_name = ''Meter A'', ip_address = ''192.168.1.237'',
                  port = 50003, time_zone = ''Europe/Budapest'', em_enabled = JNum 1\<rparr>),
         ClickModify, Change (Set_ip_address ''10.9.9.9''), Change (Set_port (Some 1)),
         Change (Set_asset_name ''Meter B'')]) \<and>
   snd (EnergyMeter_step \<lparr>JSON_stringify = (\<lambda>v. []), ip_v4 = (\<lambda>a. True), defaultTimeZone = ''Europe/Budapest''\<rparr>
     (run (EnergyMeter_step \<lparr>JSON_stringify = (\<lambda>v. []), ip_v4 = (\<lambda>a. True), defaultTimeZone = ''Europe/Budapest''\<rparr>)
        (EnergyMeter_init \<lparr>JSON_stringify = (\<lambda>v. []), ip_v4 = (\<lambda>a. True), defaultTimeZone = ''Europe/Budapest''\<rparr>)
        [OnSelectionChange
           (Some \<lparr>em_oid = 1, em_id = 7, asset_name = ''Meter A'', ip_address = ''192.168.1.237'',
                  port = 50003, time_zone = ''Europe/Budapest'', em_enabled = JNum 1\<rparr>),
         ClickModify, Change (Set_ip_address ''10.9.9.9''), Change (Set_port (Some 1)),
         Change (Set_asset_name ''Meter B'')])
     Submit) =
   [Fetch \<lparr>method = PUT, url = ''/api/admin/crud/energy_meter/7'',
           body = Some (Params \<lparr>ep_asset_name = ''Meter B'', ep_ip_address = ''192.168.1.237'',
                                ep_port = 50003, ep_time_zone = ''Europe/Budapest'',
                                ep_enabled = True\<rparr>)\<rparr>]"
proof -
  let ?env = "\<lparr>JSON_stringify = (\<lambda>v. []), ip_v4 = (\<lambda>a. True), defaultTimeZone = ''Europe/Budapest''\<rparr>"
  let ?row = "\<lparr>em_oid = 1, em_id = 7, asset_name = ''Meter A'', ip_address = ''192.168.1.237'',
                port = 50003, time_zone = ''Europe/Budapest'', em_enabled = JNum 1\<rparr>"
  let ?evs = "[OnSelectionChange (Some ?row), ClickModify, Change (Set_ip_address ''10.9.9.9''),
               Change (Set_port (Some 1)), Change (Set_asset_name ''Meter B'')]"
  have s: "run (EnergyMeter_step ?env) (EnergyMeter_init ?env) ?evs =
           \<lparr>lazyState = initial_lazyState, editedRow = Some ?row, selectedRow = Some ?row,
            visible = True, confirmDialogVisible = False, toastCurrent = True,
            formValues = \<lparr>ef_asset_name = ''Meter B'', ef_ip_address = ''192.168.1.237'',
                           ef_port = Some 50003, ef_time_zone = ''Europe/Budapest'',
                           ef_enabled = True\<rparr>\<rparr>"
    by (simp add: EnergyMeter_init_def onSelectionChange_def EnergyMeter_button_disabled_def
        EnergyMeter_click_Modify_def EnergyMeter_setEditedRow_def EnergyMeter_useEffect_def
        EnergyMeter_field_onChange_def EnergyMeter_input_disabled_def Let_def)
  let ?s = "\<lparr>lazyState = initial_lazyState, editedRow = Some ?row, selectedRow = Some ?row,
            visible = True, confirmDialogVisible = False, toastCurrent = True,
            formValues = \<lparr>ef_asset_name = ''Meter B'', ef_ip_address = ''192.168.1.237'',
                           ef_port = Some 50003, ef_time_zone = ''Europe/Budapest'',
                           ef_enabled = True\<rparr>\<rparr>"
  have eff: "snd (EnergyMeter_step ?env ?s Submit) =
        [Fetch \<lparr>method = PUT, url = ''/api/admin/crud/energy_meter/7'',
           body = Some (Params \<lparr>ep_asset_name = ''Meter B'', ep_ip_address = ''192.168.1.237'',
                                ep_port = 50003, ep_time_zone = ''Europe/Budapest'',
                                ep_enabled = True\<rparr>)\<rparr>]"
    by (simp add: EnergyMeter_handleSubmit_def EnergyMeter_schema_def EnergyMeter_onSubmit_def
        Number_toString_def decimal_digits_1 digit_def Let_def)
  have hyps: "editedRow ?s = Some ?row" "em_id ?row > - 1"
    by simp_all
  from EnergyMeter_update_keeps_ip_address_and_port [OF s [symmetric] hyps]
  have "EnergyMeter_input_disabled ?s"
    by (rule conjunct1)
  with eff show ?thesis
    by (simp only: s)
qed


text \<open>
  Claim C3. A submission of a form that the schema accepts sends one request: a PUT to
  \<open>/api/admin/crud/<table>/<id>\<close> when \<open>editedRow\<close> is set and its \<open>id\<close> is truthy, a
  POST to the collection otherwise, with the form data as body. When the promise chain
  of that request resolves, the list query and the count query are invalidated and the
  selection is cleared.
\<close>

theorem form_submission_one_mutation:
  assumes "Channels_schema (formValues s) = Some data"
    and "EnergyMeter_schema env (formValues s') = Some data'"
  shows "(\<forall>row. editedRow s = Some row \<and> ch_id row \<noteq> 0 \<longrightarrow>
            requests (snd (Channels_handleSubmit s)) =
              [\<lparr>method = PUT, url = ''/api/admin/crud/channels/'' @ Number_toString (ch_id row),
                body = Some (Params data)\<rparr>]) \<and>
         (\<not> (\<exists>row. editedRow s = Some row \<and> ch_id row \<noteq> 0) \<longrightarrow>
            requests (snd (Channels_handleSubmit s)) =
              [\<lparr>method = POST, url = ''/api/admin/crud/channels'', body = Some (Params data)\<rparr>]) \<and>
         (\<forall>row. editedRow s' = Some row \<and> em_id row \<noteq> 0 \<longrightarrow>
            requests (snd (EnergyMeter_handleSubmit env s')) =
              [\<lparr>method = PUT, url = ''/api/admin/crud/energy_meter/'' @ Number_toString (em_id row),
                body = Some (Params data')\<rparr>]) \<and>
         (\<not> (\<exists>row. editedRow s' = Some row \<and> em_id row \<noteq> 0) \<longrightarrow>
            requests (snd (EnergyMeter_handleSubmit env s')) =
              [\<lparr>method = POST, url = ''/api/admin/crud/energy_meter'', body = Some (Params data')\<rparr>]) \<and>
         (\<forall>m t response. m = PUT \<or> m = POST \<longrightarrow>
            invalidated (snd (Channels_settled env m t (Resolved response))) =
              [''channels'', ''channelscount''] \<and>
            selectedRow (fst (Channels_settled env m t (Resolved response))) = None) \<and>
         (\<forall>m t response. m = PUT \<or> m = POST \<longrightarrow>
            invalidated (snd (EnergyMeter_settled env m t (Resolved response))) =
              [''energy_meter'', ''energy_metercount''] \<and>
            selectedRow (fst (EnergyMeter_settled env m t (Resolved response))) = None)"
proof -
  have c: "Channels_handleSubmit s = Channels_onSubmit s data"
    using assms(1) by (simp add: Channels_handleSubmit_def)
  have e: "EnergyMeter_handleSubmit env s' = EnergyMeter_onSubmit s' data'"
    using assms(2) by (simp add: EnergyMeter_handleSubmit_def)
  have 1: "\<forall>row. editedRow s = Some row \<and> ch_id row \<noteq> 0 \<longrightarrow>
            requests (snd (Channels_handleSubmit s)) =
              [\<lparr>method = PUT, url = ''/api/admin/crud/channels/'' @ Number_toString (ch_id row),
                body = Some (Params data)\<rparr>]"
    by (simp add: c Channels_onSubmit_def Let_def)
  have 2: "\<not> (\<exists>row. editedRow s = Some row \<and> ch_id row \<noteq> 0) \<longrightarrow>
            requests (snd (Channels_handleSubmit s)) =
              [\<lparr>method = POST, url = ''/api/admin/crud/channels'', body = Some (Params data)\<rparr>]"
    by (auto simp: c Channels_onSubmit_def Let_def split: option.splits)
  have 3: "\<forall>row. editedRow s' = Some row \<and> em_id row \<noteq> 0 \<longrightarrow>
            requests (snd (EnergyMeter_handleSubmit env s')) =
              [\<lparr>method = PUT, url = ''/api/admin/crud/energy_meter/'' @ Number_toString (em_id row),
                body = Some (Params data')\<rparr>]"
    by (simp add: e EnergyMeter_onSubmit_def Let_def)
  have 4: "\<not> (\<exists>row. editedRow s' = Some row \<and> em_id row \<noteq> 0) \<longrightarrow>
            requests (snd (EnergyMeter_handleSubmit env s')) =
              [\<lparr>method = POST, url = ''/api/admin/crud/energy_meter'', body = Some (Params data')\<rparr>]"
    by (auto simp: e EnergyMeter_onSubmit_def Let_def split: option.splits)
  have 5: "\<forall>m t response. m = PUT \<or> m = POST \<longrightarrow>
            invalidated (snd (Channels_settled env m t (Resolved response))) =
              [''channels'', ''channelscount''] \<and>
            selectedRow (fst (Channels_settled env m t (Resolved response))) = None"
    by (auto simp: Channels_settled_def Channels_updatePage_def show_msg_def)
  have 6: "\<forall>m t response. m = PUT \<or> m = POST \<longrightarrow>
            invalidated (snd (EnergyMeter_settled env m t (Resolved response))) =
              [''energy_meter'', ''energy_metercount''] \<and>
            selectedRow (fst (EnergyMeter_settled env m t (Resolved response))) = None"
    by (auto simp: EnergyMeter_settled_def EnergyMeter_updatePage_def show_msg_def)
  from 1 2 3 4 5 6 show ?thesis by blast
qed


theorem form_submission_one_mutation_witness:
  "requests (snd (Channels_handleSubmit
       \<lparr>lazyState = initial_lazyState,
        editedRow = Some \<lparr>ch_oid = 1, ch_id = 3, energy_meter_id = 7, ch_channel = 2,
                           channel_name = ''Boiler'', ch_enabled = JBool True,
                           assset_name = Some ''Meter A''\<rparr>,
        selectedRow = None, visible = True, confirmDialogVisible = False, toastCurrent = True,
        formValues = \<lparr>cf_energy_meter_id = 7, cf_channel = Some 2, cf_channel_name = ''Boiler 2'',
                       cf_enabled = True\<rparr>\<rparr>)) =
     [\<lparr>method = PUT, url = ''/api/admin/crud/channels/3'',
       body = Some (Params \<lparr>cp_energy_meter_id = 7, cp_channel = 2, cp_channel_name = ''Boiler 2'',
                            cp_enabled = True\<rparr>)\<rparr>] \<and>
   requests (snd (EnergyMeter_handleSubmit
       \<lparr>JSON_stringify = (\<lambda>v. []), ip_v4 = (\<lambda>a. True), defaultTimeZone = ''Europe/Budapest''\<rparr>
       \<lparr>lazyState = initial_lazyState, editedRow = None, selectedRow = None, visible = True,
        confirmDialogVisible = False, toastCurrent = True,
        formValues = \<lparr>ef_asset_name = ''Meter B'', ef_ip_address = ''192.168.1.238'',
                       ef_port = Some 50003, ef_time_zone = ''Europe/Budapest'',
                       ef_enabled = False\<rparr>\<rparr>)) =
     [\<lparr>method = POST, url = ''/api/admin/crud/energy_meter'',
       body = Some (Params \<lparr>ep_asset_name = ''Meter B'', ep_ip_address = ''192.168.1.238'',
                            ep_port = 50003, ep_time_zone = ''Europe/Budapest'',
                            ep_enabled = False\<rparr>)\<rparr>] \<and>
   invalidated (snd (Channels_settled
       \<lparr>JSON_stringify = (\<lambda>v. []), ip_v4 = (\<lambda>a. True), defaultTimeZone = ''Europe/Budapest''\<rparr>
       PUT Channels_init (Resolved (JObj [(''count'', JNum 1)])))) = [''channels'', ''channelscount'']"
proof -
  let ?env = "\<lparr>JSON_stringify = (\<lambda>v. []), ip_v4 = (\<lambda>a. True), defaultTimeZone = ''Europe/Budapest''\<rparr>"
  let ?row = "\<lparr>ch_oid = 1, ch_id = 3, energy_meter_id = 7, ch_channel = 2,
                channel_name = ''Boiler'', ch_enabled = JBool True, assset_name = Some ''Meter A''\<rparr>"
  let ?s = "\<lparr>lazyState = initial_lazyState, editedRow = Some ?row,
        selectedRow = None, visible = True, confirmDialogVisible = False, toastCurrent = True,
        formValues = \<lparr>cf_energy_meter_id = 7, cf_channel = Some 2, cf_channel_name = ''Boiler 2'',
                       cf_enabled = True\<rparr>\<rparr>"
  let ?s' = "\<lparr>lazyState = initial_lazyState, editedRow = None, selectedRow = None, visible = True,
        confirmDialogVisible = False, toastCurrent = True,
        formValues = \<lparr>ef_asset_name = ''Meter B'', ef_ip_address = ''192.168.1.238'',
                       ef_port = Some 50003, ef_time_zone = ''Europe/Budapest'',
                       ef_enabled = False\<rparr>\<rparr>"
  have 1: "Channels_schema (formValues ?s) =
             Some \<lparr>cp_energy_meter_id = 7, cp_channel = 2, cp_channel_name = ''Boiler 2'',
                   cp_enabled = True\<rparr>"
    by (simp add: Channels_schema_def)
  have 2: "EnergyMeter_schema ?env (formValues ?s') =
             Some \<lparr>ep_asset_name = ''Meter B'', ep_ip_address = ''192.168.1.238'',
                   ep_port = 50003, ep_time_zone = ''Europe/Budapest'', ep_enabled = False\<rparr>"
    by (simp add: EnergyMeter_schema_def)
  from form_submission_one_mutation [OF 1 2] show ?thesis
    by (simp add: Number_toString_def digit_def decimal_digits_1)
qed

end
